theory Spec2Isabelle
  imports Main
begin

section \<open>The parser library as seen by the language services\<close>

text \<open>
  The lexer, the parser and the inspection of \<^verbatim>\<open>@microsoft/powerquery-parser\<close> are
  outside the repository. The language services only use their interface: four functions
  that return a tagged result, and the default settings. They are taken as parameters
  (the record \<open>PQP\<close> below). The types they produce are opaque to the cache and are type
  variables: \<open>'le\<close> a lex error, \<open>'sn\<close> a lexer snapshot, \<open>'po\<close> and \<open>'pe\<close> a parse result and a
  parse error, \<open>'ins\<close> and \<open>'ce\<close> an inspection and a common error, \<open>'r\<close> an external type
  resolver. Only the lexer state is read by the code (its lines and their tokens).
\<close>

datatype ('t, 'e) result = Ok 't | Err 'e

fun isErr :: "('t, 'e) result \<Rightarrow> bool" where
  "isErr (Err e) = True"
| "isErr (Ok v) = False"

datatype LineTokenKind = Identifier | OtherLineTokenKind string

record LineToken =
  data :: string
  kind :: LineTokenKind
  positionStart :: int
  positionEnd :: int

record TLine =
  tokens :: "LineToken list"

record LexerState =
  lines :: "TLine list"

record 'r Settings =
  settings_locale :: string
  maybeExternalTypeResolver :: "'r option"

record InspectionPosition =
  lineCodeUnit :: int
  lineNumber :: int

record ('le, 'sn, 'po, 'pe, 'ins, 'ce, 'r, 'z) PQP =
  tryLex :: "('r, 'z) Settings_scheme \<Rightarrow> string \<Rightarrow> (LexerState, 'le) result"
  trySnapshot :: "LexerState \<Rightarrow> ('sn, 'le) result"
  tryParse :: "('r, 'z) Settings_scheme \<Rightarrow> 'sn \<Rightarrow> ('po, 'pe) result"
  tryInspection ::
    "('r, 'z) Settings_scheme \<Rightarrow> ('po, 'pe) result \<Rightarrow> InspectionPosition \<Rightarrow> ('ins, 'ce) result"
  DefaultSettings :: "('r, 'z) Settings_scheme"

section \<open>Documents and positions\<close>

text \<open>
  \<open>Position\<close>, \<open>Range\<close> and \<open>TextDocument\<close> come from the language server protocol
  types. A document is its URI and its \<^verbatim>\<open>getText\<close> method: \<open>getText d None\<close> is
  \<^verbatim>\<open>d.getText()\<close>, \<open>getText d (Some r)\<close> is \<^verbatim>\<open>d.getText(r)\<close>. Line and character are
  JavaScript numbers, here integers (a cursor in column 0 makes the code compute the
  character \<open>-1\<close>).

  The inspection cache is a \<^verbatim>\<open>WeakMap<Position, ...>\<close>: its keys are objects, compared
  by identity. \<open>PositionObject\<close> is a position together with the identity of the object
  that carries it; two objects can hold the same line and character.
\<close>

record Position =
  line :: int
  character :: int

record PositionObject = Position +
  ident :: nat

record Range =
  range_start :: Position
  range_end :: Position

record TextDocument =
  uri :: string
  getText :: "Range option \<Rightarrow> string"

record TextDocumentContentChangeEvent =
  change_range :: "Range option"
  change_text :: string

section \<open>workspaceCache: the staged cache\<close>

datatype CacheStageKind = Lexer | LexerSnapshot | Parser | Inspection

text \<open>
  \<^verbatim>\<open>CacheItem<T, E, Stage>\<close> is a result with a \<^verbatim>\<open>stage\<close> field, and \<^verbatim>\<open>TCacheItem\<close> is the
  union of the four instances, told apart by that field: one constructor per stage.
  \<^verbatim>\<open>LexerCacheItem\<close> alone (what \<^verbatim>\<open>getLexerState\<close> returns and the lexer map holds) is the
  result type itself, its stage being \<open>Lexer\<close> by type.
\<close>

type_synonym 'le LexerCacheItem = "(LexerState, 'le) result"

datatype ('le, 'sn, 'po, 'pe, 'ins, 'ce) TCacheItem =
    LexerCacheItem "(LexerState, 'le) result"
  | LexerSnapshotCacheItem "('sn, 'le) result"
  | ParserCacheItem "('po, 'pe) result"
  | InspectionCacheItem "('ins, 'ce) result"

fun stage :: "('le, 'sn, 'po, 'pe, 'ins, 'ce) TCacheItem \<Rightarrow> CacheStageKind" where
  "stage (LexerCacheItem r) = Lexer"
| "stage (LexerSnapshotCacheItem r) = LexerSnapshot"
| "stage (ParserCacheItem r) = Parser"
| "stage (InspectionCacheItem r) = Inspection"

fun itemIsErr :: "('le, 'sn, 'po, 'pe, 'ins, 'ce) TCacheItem \<Rightarrow> bool" where
  "itemIsErr (LexerCacheItem r) = isErr r"
| "itemIsErr (LexerSnapshotCacheItem r) = isErr r"
| "itemIsErr (ParserCacheItem r) = isErr r"
| "itemIsErr (InspectionCacheItem r) = isErr r"

text \<open>
  The calls made to the parser library are recorded in the state, in the order they are
  made. The source keeps no such log; it is what lets a statement count the calls.
\<close>

datatype EngineCall = TryLex | TrySnapshot | TryParse | TryInspection

text \<open>
  The four module-level maps. A \<^verbatim>\<open>Map<string, T>\<close> is a partial function from the URI; the
  inner \<^verbatim>\<open>WeakMap\<close> of the inspection cache is a partial function from the identity of the
  position object.
\<close>

record ('le, 'sn, 'po, 'pe, 'ins, 'ce) Workspace =
  LexerStateCache :: "string \<rightharpoonup> 'le LexerCacheItem"
  LexerSnapshotCache :: "string \<rightharpoonup> ('le, 'sn, 'po, 'pe, 'ins, 'ce) TCacheItem"
  ParserCache :: "string \<rightharpoonup> ('le, 'sn, 'po, 'pe, 'ins, 'ce) TCacheItem"
  InspectionCache :: "string \<rightharpoonup> (nat \<rightharpoonup> ('le, 'sn, 'po, 'pe, 'ins, 'ce) TCacheItem)"
  engineCalls :: "EngineCall list"

definition emptyWorkspace :: "('le, 'sn, 'po, 'pe, 'ins, 'ce) Workspace" where
  "emptyWorkspace =
     \<lparr>LexerStateCache = Map.empty, LexerSnapshotCache = Map.empty, ParserCache = Map.empty,
      InspectionCache = Map.empty, engineCalls = []\<rparr>"

definition logCall ::
  "EngineCall \<Rightarrow> ('le, 'sn, 'po, 'pe, 'ins, 'ce) Workspace
     \<Rightarrow> ('le, 'sn, 'po, 'pe, 'ins, 'ce) Workspace" where
  "logCall c s = s\<lparr>engineCalls := engineCalls s @ [c]\<rparr>"

definition close ::
  "TextDocument \<Rightarrow> ('le, 'sn, 'po, 'pe, 'ins, 'ce) Workspace
     \<Rightarrow> ('le, 'sn, 'po, 'pe, 'ins, 'ce) Workspace" where
  "close textDocument s =
     s\<lparr>LexerSnapshotCache := (LexerSnapshotCache s)(uri textDocument := None),
       LexerStateCache := (LexerStateCache s)(uri textDocument := None),
       ParserCache := (ParserCache s)(uri textDocument := None),
       InspectionCache := (InspectionCache s)(uri textDocument := None)\<rparr>"

definition update ::
  "TextDocument \<Rightarrow> TextDocumentContentChangeEvent list \<Rightarrow> int \<Rightarrow> ('le, 'sn, 'po, 'pe, 'ins, 'ce) Workspace
     \<Rightarrow> ('le, 'sn, 'po, 'pe, 'ins, 'ce) Workspace" where
  "update textDocument changes version s = close textDocument s"

definition getSettings ::
  "('le, 'sn, 'po, 'pe, 'ins, 'ce, 'r, 'z) PQP \<Rightarrow> string option \<Rightarrow> 'r option
     \<Rightarrow> ('r, 'z) Settings_scheme" where
  "getSettings pqp maybeLocale maybeResolver =
     (DefaultSettings pqp)
       \<lparr>settings_locale :=
          (case maybeLocale of None \<Rightarrow> settings_locale (DefaultSettings pqp) | Some l \<Rightarrow> l),
        maybeExternalTypeResolver := maybeResolver\<rparr>"

text \<open>
  \<^verbatim>\<open>getOrCreate(cache, textDocument, maybeLocale, factoryFn)\<close>. The map is a module-level
  object that the factory may write to as well, so it is given by how to read it from the
  state and how to write it back; the new entry goes into the map as the factory left it.
\<close>

definition getOrCreate ::
  "('s \<Rightarrow> string \<rightharpoonup> 'T) \<Rightarrow> ((string \<rightharpoonup> 'T) \<Rightarrow> 's \<Rightarrow> 's) \<Rightarrow> TextDocument \<Rightarrow> string option
     \<Rightarrow> (TextDocument \<Rightarrow> string option \<Rightarrow> 's \<Rightarrow> 'T \<times> 's) \<Rightarrow> 's \<Rightarrow> 'T \<times> 's" where
  "getOrCreate cache cacheSet textDocument maybeLocale factoryFn s =
     (let cacheKey = uri textDocument in
      case cache s cacheKey of
        None \<Rightarrow>
          (case factoryFn textDocument maybeLocale s of
             (v, s') \<Rightarrow> (v, cacheSet ((cache s')(cacheKey \<mapsto> v)) s'))
      | Some v \<Rightarrow> (v, s))"

definition createLexerCacheItem ::
  "('le, 'sn, 'po, 'pe, 'ins, 'ce, 'r, 'z) PQP \<Rightarrow> TextDocument \<Rightarrow> string option
     \<Rightarrow> ('le, 'sn, 'po, 'pe, 'ins, 'ce) Workspace
     \<Rightarrow> 'le LexerCacheItem \<times> ('le, 'sn, 'po, 'pe, 'ins, 'ce) Workspace" where
  "createLexerCacheItem pqp textDocument maybeLocale s =
     (tryLex pqp (getSettings pqp maybeLocale None) (getText textDocument None),
      logCall TryLex s)"

definition getLexerState ::
  "('le, 'sn, 'po, 'pe, 'ins, 'ce, 'r, 'z) PQP \<Rightarrow> TextDocument \<Rightarrow> string option
     \<Rightarrow> ('le, 'sn, 'po, 'pe, 'ins, 'ce) Workspace
     \<Rightarrow> 'le LexerCacheItem \<times> ('le, 'sn, 'po, 'pe, 'ins, 'ce) Workspace" where
  "getLexerState pqp textDocument maybeLocale =
     getOrCreate LexerStateCache (\<lambda>m s. s\<lparr>LexerStateCache := m\<rparr>) textDocument maybeLocale
       (createLexerCacheItem pqp)"

definition createLexerSnapshotCacheItem ::
  "('le, 'sn, 'po, 'pe, 'ins, 'ce, 'r, 'z) PQP \<Rightarrow> TextDocument \<Rightarrow> string option
     \<Rightarrow> ('le, 'sn, 'po, 'pe, 'ins, 'ce) Workspace
     \<Rightarrow> ('le, 'sn, 'po, 'pe, 'ins, 'ce) TCacheItem \<times> ('le, 'sn, 'po, 'pe, 'ins, 'ce) Workspace" where
  "createLexerSnapshotCacheItem pqp textDocument maybeLocale s =
     (case getLexerState pqp textDocument maybeLocale s of
        (lexerCacheItem, s') \<Rightarrow>
          (case lexerCacheItem of
             Err e \<Rightarrow> (LexerCacheItem lexerCacheItem, s')
           | Ok lexerState \<Rightarrow>
               (LexerSnapshotCacheItem (trySnapshot pqp lexerState), logCall TrySnapshot s')))"

definition getTriedLexerSnapshot ::
  "('le, 'sn, 'po, 'pe, 'ins, 'ce, 'r, 'z) PQP \<Rightarrow> TextDocument \<Rightarrow> string option
     \<Rightarrow> ('le, 'sn, 'po, 'pe, 'ins, 'ce) Workspace
     \<Rightarrow> ('le, 'sn, 'po, 'pe, 'ins, 'ce) TCacheItem \<times> ('le, 'sn, 'po, 'pe, 'ins, 'ce) Workspace" where
  "getTriedLexerSnapshot pqp textDocument maybeLocale =
     getOrCreate LexerSnapshotCache (\<lambda>m s. s\<lparr>LexerSnapshotCache := m\<rparr>) textDocument maybeLocale
       (createLexerSnapshotCacheItem pqp)"

definition createParserCacheItem ::
  "('le, 'sn, 'po, 'pe, 'ins, 'ce, 'r, 'z) PQP \<Rightarrow> TextDocument \<Rightarrow> string option
     \<Rightarrow> ('le, 'sn, 'po, 'pe, 'ins, 'ce) Workspace
     \<Rightarrow> ('le, 'sn, 'po, 'pe, 'ins, 'ce) TCacheItem \<times> ('le, 'sn, 'po, 'pe, 'ins, 'ce) Workspace" where
  "createParserCacheItem pqp textDocument maybeLocale s =
     (case getTriedLexerSnapshot pqp textDocument maybeLocale s of
        (lexerSnapshotCacheItem, s') \<Rightarrow>
          (case lexerSnapshotCacheItem of
             LexerSnapshotCacheItem (Ok lexerSnapshot) \<Rightarrow>
               (ParserCacheItem (tryParse pqp (getSettings pqp maybeLocale None) lexerSnapshot),
                logCall TryParse s')
           | _ \<Rightarrow> (lexerSnapshotCacheItem, s')))"

definition getTriedParse ::
  "('le, 'sn, 'po, 'pe, 'ins, 'ce, 'r, 'z) PQP \<Rightarrow> TextDocument \<Rightarrow> string option
     \<Rightarrow> ('le, 'sn, 'po, 'pe, 'ins, 'ce) Workspace
     \<Rightarrow> ('le, 'sn, 'po, 'pe, 'ins, 'ce) TCacheItem \<times> ('le, 'sn, 'po, 'pe, 'ins, 'ce) Workspace" where
  "getTriedParse pqp textDocument maybeLocale =
     getOrCreate ParserCache (\<lambda>m s. s\<lparr>ParserCache := m\<rparr>) textDocument maybeLocale
       (createParserCacheItem pqp)"

text \<open>
  \<^verbatim>\<open>createTriedInspection\<close> tests the stage tag only. An item tagged \<open>Parser\<close> is handed to
  \<^verbatim>\<open>tryInspection\<close> as the tried parse it is, successful or not.
\<close>

definition createTriedInspection ::
  "('le, 'sn, 'po, 'pe, 'ins, 'ce, 'r, 'z) PQP \<Rightarrow> TextDocument \<Rightarrow> PositionObject
     \<Rightarrow> string option \<Rightarrow> 'r option \<Rightarrow> ('le, 'sn, 'po, 'pe, 'ins, 'ce) Workspace
     \<Rightarrow> ('le, 'sn, 'po, 'pe, 'ins, 'ce) TCacheItem \<times> ('le, 'sn, 'po, 'pe, 'ins, 'ce) Workspace" where
  "createTriedInspection pqp textDocument position maybeLocale maybeResolver s =
     (case getTriedParse pqp textDocument maybeLocale s of
        (parserCacheItem, s') \<Rightarrow>
          (case parserCacheItem of
             ParserCacheItem triedParse \<Rightarrow>
               (InspectionCacheItem
                  (tryInspection pqp (getSettings pqp maybeLocale maybeResolver) triedParse
                     \<lparr>lineCodeUnit = character position, lineNumber = line position\<rparr>),
                logCall TryInspection s')
           | _ \<Rightarrow> (parserCacheItem, s')))"

text \<open>
  \<^verbatim>\<open>getTriedInspection\<close>: the map of the document is fetched, or created and stored, first;
  the entry is then looked up under the position object itself (\<^verbatim>\<open>positionCache.has\<close>), and
  on a miss the new item is stored in that same map object.
\<close>

definition getTriedInspection ::
  "('le, 'sn, 'po, 'pe, 'ins, 'ce, 'r, 'z) PQP \<Rightarrow> TextDocument \<Rightarrow> PositionObject
     \<Rightarrow> string option \<Rightarrow> 'r option \<Rightarrow> ('le, 'sn, 'po, 'pe, 'ins, 'ce) Workspace
     \<Rightarrow> ('le, 'sn, 'po, 'pe, 'ins, 'ce) TCacheItem \<times> ('le, 'sn, 'po, 'pe, 'ins, 'ce) Workspace" where
  "getTriedInspection pqp textDocument position maybeLocale maybeResolver s =
     (let cacheKey = uri textDocument;
          s1 = (case InspectionCache s cacheKey of
                  Some positionCache \<Rightarrow> s
                | None \<Rightarrow> s\<lparr>InspectionCache := (InspectionCache s)(uri textDocument \<mapsto> Map.empty)\<rparr>);
          positionCache = (case InspectionCache s cacheKey of
                             Some positionCache \<Rightarrow> positionCache
                           | None \<Rightarrow> Map.empty)
      in case positionCache (ident position) of
           Some item \<Rightarrow> (item, s1)
         | None \<Rightarrow>
             (case createTriedInspection pqp textDocument position maybeLocale maybeResolver s1 of
                (item, s2) \<Rightarrow>
                  (item,
                   s2\<lparr>InspectionCache :=
                        (InspectionCache s2)(cacheKey \<mapsto> positionCache(ident position \<mapsto> item))\<rparr>)))"


section \<open>analysis: promises and providers\<close>

text \<open>
  A provider method is typed as returning a promise. Calling it either returns a promise,
  which then settles fulfilled or rejected, or throws before any promise is returned; an
  \<^verbatim>\<open>async\<close> method that throws does the former (it returns a rejected promise), a method
  written without \<^verbatim>\<open>async\<close> can do the latter. \<^verbatim>\<open>p.catch(h)\<close> turns a rejection of the
  promise \<open>p\<close> into the handler's result; it is reached only once the call has returned
  \<open>p\<close>.
\<close>

datatype 'a Call = Returns 'a | Throws string

datatype 'a Promise = Fulfilled 'a | Rejected string

fun promise_catch :: "'a Promise \<Rightarrow> (string \<Rightarrow> 'a) \<Rightarrow> 'a Promise" where
  "promise_catch (Fulfilled v) h = Fulfilled v"
| "promise_catch (Rejected e) h = Fulfilled (h e)"

text \<open>
  \<^verbatim>\<open>Promise.all(ps)\<close>. The tasks settle in an order that the program does not choose: the
  schedule lists the indices of the promises in the order they settle, and a promise whose
  index is missing from it never settles. Each fulfilment is stored at the index of its
  promise; the first rejection to happen rejects the whole. The result is \<open>None\<close> when
  \<^verbatim>\<open>Promise.all\<close> never settles, which leaves the caller waiting for ever.
\<close>

fun Promise_all_run :: "nat list \<Rightarrow> 'a Promise list \<Rightarrow> 'a option list \<Rightarrow> 'a list Promise option" where
  "Promise_all_run [] ps acc = map_option Fulfilled (those acc)"
| "Promise_all_run (i # schedule) ps acc =
     (if i < length ps then
        (case ps ! i of
           Fulfilled v \<Rightarrow> Promise_all_run schedule ps (acc[i := Some v])
         | Rejected e \<Rightarrow> Some (Rejected e))
      else Promise_all_run schedule ps acc)"

definition Promise_all :: "nat list \<Rightarrow> 'a Promise list \<Rightarrow> 'a list Promise option" where
  "Promise_all schedule ps = Promise_all_run schedule ps (replicate (length ps) None)"

record CompletionItemProviderContext =
  context_range :: "Range option"
  context_text :: "string option"
  context_tokenKind :: "LineTokenKind option"

record HoverProviderContext =
  hover_range :: Range
  hover_identifier :: string

record SignatureProviderContext =
  maybeFunctionName :: "string option"

record 'ci CompletionItemProvider =
  getCompletionItems :: "CompletionItemProviderContext \<Rightarrow> 'ci list Promise Call"

record ('ci, 'h, 'sh, 'sx) SymbolProvider = "'ci CompletionItemProvider" +
  getHover :: "HoverProviderContext \<Rightarrow> 'h option Promise Call"
  getSignatureHelp :: "'sx SignatureProviderContext_scheme \<Rightarrow> 'sh option Promise Call"

text \<open>
  What \<^verbatim>\<open>analysis.ts\<close> imports from modules that are not among the source files, taken as
  parameters: the two functions of the workspace cache it calls (in the signature it calls
  them with: the lexer state of a document, and the inspection at a position if there is
  one), \<^verbatim>\<open>InspectionUtils.maybeSignatureProviderContext\<close>, and the two empty responses of
  \<^verbatim>\<open>LanguageServiceUtils\<close>.
\<close>

record ('ins, 'ce, 'h, 'sh, 'sx) Modules =
  WorkspaceCache_getLexerState :: "TextDocument \<Rightarrow> LexerState"
  WorkspaceCache_maybeTriedInspection :: "TextDocument \<Rightarrow> Position \<Rightarrow> ('ins, 'ce) result option"
  maybeSignatureProviderContext :: "'ins \<Rightarrow> 'sx SignatureProviderContext_scheme option"
  EmptyHover :: 'h
  EmptySignatureHelp :: 'sh

text \<open>
  Modelled from the spec: \<^verbatim>\<open>LanguageServiceUtils.EmptyCompletionItems\<close> is not among the
  source files; the spec has a failing provider degrade to an empty list.
\<close>

definition EmptyCompletionItems :: "'ci list" where
  "EmptyCompletionItems = []"

record ('ins, 'ce, 'ci, 'h, 'sh, 'sx) DocumentAnalysis =
  document :: TextDocument
  position :: Position
  maybeTriedInspection :: "('ins, 'ce) result option"
  environmentSymbolProvider :: "('ci, 'h, 'sh, 'sx) SymbolProvider"
  keywordProvider :: "'ci CompletionItemProvider"
  librarySymbolProvider :: "('ci, 'h, 'sh, 'sx) SymbolProvider"
  localSymbolProvider :: "('ci, 'h, 'sh, 'sx) SymbolProvider"

section \<open>analysis: the token at the cursor\<close>

definition getTokenRangeForPosition :: "LineToken \<Rightarrow> Position \<Rightarrow> Range" where
  "getTokenRangeForPosition token cursorPosition =
     \<lparr>range_start = \<lparr>line = line cursorPosition, character = positionStart token\<rparr>,
      range_end = \<lparr>line = line cursorPosition, character = positionEnd token\<rparr>\<rparr>"

text \<open>
  \<^verbatim>\<open>lexResult.lines[position.line]\<close> is \<^verbatim>\<open>undefined\<close> for an index that is negative or past
  the last line.
\<close>

definition maybeLineTokensAt ::
  "('ins, 'ce, 'h, 'sh, 'sx) Modules \<Rightarrow> TextDocument \<Rightarrow> Position \<Rightarrow> LineToken list option" where
  "maybeLineTokensAt env doc pos =
     (let lexResult = WorkspaceCache_getLexerState env doc;
          maybeLine = (if 0 \<le> line pos \<and> nat (line pos) < length (lines lexResult)
                       then Some (lines lexResult ! nat (line pos)) else None)
      in case maybeLine of None \<Rightarrow> None | Some l \<Rightarrow> Some (tokens l))"

text \<open>The two loops of \<^verbatim>\<open>maybeTokenAt\<close>, each returning from inside the loop.\<close>

fun maybeTokenAt_loop1 :: "int \<Rightarrow> LineToken list \<Rightarrow> LineToken option" where
  "maybeTokenAt_loop1 c [] = None"
| "maybeTokenAt_loop1 c (token # rest) =
     (if positionStart token \<le> c \<and> positionEnd token \<ge> c then Some token
      else maybeTokenAt_loop1 c rest)"

fun maybeTokenAt_loop2 :: "int \<Rightarrow> LineToken list \<Rightarrow> LineToken option" where
  "maybeTokenAt_loop2 c [] = None"
| "maybeTokenAt_loop2 c (token # rest) =
     (if positionStart token \<le> c - 1 \<and> positionEnd token \<ge> c - 1 then
        (if kind token = Identifier then
           Some \<lparr>data = data token @ ''.'', kind = kind token,
                 positionStart = positionStart token, positionEnd = positionEnd token + 1\<rparr>
         else maybeTokenAt_loop2 c rest)
      else maybeTokenAt_loop2 c rest)"

definition maybeTokenAt ::
  "('ins, 'ce, 'h, 'sh, 'sx) Modules \<Rightarrow> TextDocument \<Rightarrow> Position \<Rightarrow> LineToken option" where
  "maybeTokenAt env doc pos =
     (case maybeLineTokensAt env doc pos of
        None \<Rightarrow> None
      | Some lineTokens \<Rightarrow>
          (case maybeTokenAt_loop1 (character pos) lineTokens of
             Some token \<Rightarrow> Some token
           | None \<Rightarrow>
               (let currentRange =
                      \<lparr>range_start = \<lparr>line = line pos, character = character pos - 1\<rparr>,
                       range_end = pos\<rparr>
                in if getText doc (Some currentRange) = ''.''
                   then maybeTokenAt_loop2 (character pos) lineTokens
                   else None)))"

definition maybeIdentifierAt ::
  "('ins, 'ce, 'h, 'sh, 'sx) Modules \<Rightarrow> TextDocument \<Rightarrow> Position \<Rightarrow> LineToken option" where
  "maybeIdentifierAt env doc pos =
     (case maybeTokenAt env doc pos of
        Some token \<Rightarrow> (if kind token = Identifier then Some token else None)
      | None \<Rightarrow> None)"

section \<open>analysis: the three requests\<close>

text \<open>
  A request is an \<^verbatim>\<open>async\<close> method: it returns a promise. Its outcome is \<open>Some (Fulfilled v)\<close>,
  \<open>Some (Rejected e)\<close> when an exception leaves the method, or \<open>None\<close> when it waits for
  ever. An exception leaves the method when a provider call throws before returning its
  promise (the calls are made one after the other, and \<^verbatim>\<open>.catch\<close> is applied to what a call
  returns), or when the awaited \<^verbatim>\<open>Promise.all\<close> is rejected. The responses are typed
  \<^verbatim>\<open>Hover\<close> and \<^verbatim>\<open>SignatureHelp\<close>, but what a provider answers may be \<^verbatim>\<open>null\<close>; so that the
  absence of \<^verbatim>\<open>null\<close> in the response is a statement and not a typing convention, the
  response of a hover or signature request is an option, \<open>None\<close> standing for \<^verbatim>\<open>null\<close>.

  \<^verbatim>\<open>Array.isArray(keywordResponse)\<close> holds of every value of the type of
  \<^verbatim>\<open>keywordResponse\<close>, a list here, so the other branch of that test has no counterpart.
\<close>

definition DocumentAnalysis_getCompletionItems ::
  "('ins, 'ce, 'h, 'sh, 'sx) Modules \<Rightarrow> nat list \<Rightarrow> ('ins, 'ce, 'ci, 'h, 'sh, 'sx) DocumentAnalysis
     \<Rightarrow> 'ci list Promise option" where
  "DocumentAnalysis_getCompletionItems env schedule this =
     (let maybeToken = maybeTokenAt env (document this) (position this);
          context =
            (case maybeToken of
               None \<Rightarrow> \<lparr>context_range = None, context_text = None, context_tokenKind = None\<rparr>
             | Some token \<Rightarrow>
                 \<lparr>context_range = Some (getTokenRangeForPosition token (position this)),
                  context_text = Some (data token),
                  context_tokenKind = Some (kind token)\<rparr>)
      in
      case getCompletionItems (librarySymbolProvider this) context of
        Throws e \<Rightarrow> Some (Rejected e)
      | Returns libraryPromise \<Rightarrow>
      (let getLibraryCompletionItems = promise_catch libraryPromise (\<lambda>e. EmptyCompletionItems) in
      case getCompletionItems (keywordProvider this) context of
        Throws e \<Rightarrow> Some (Rejected e)
      | Returns keywordPromise \<Rightarrow>
      (let getKeywords = promise_catch keywordPromise (\<lambda>e. EmptyCompletionItems) in
      case getCompletionItems (environmentSymbolProvider this) context of
        Throws e \<Rightarrow> Some (Rejected e)
      | Returns environmentPromise \<Rightarrow>
      (let getEnvironmentCompletionItems =
             promise_catch environmentPromise (\<lambda>e. EmptyCompletionItems) in
      case getCompletionItems (localSymbolProvider this) context of
        Throws e \<Rightarrow> Some (Rejected e)
      | Returns localPromise \<Rightarrow>
      (let getLocalCompletionItems = promise_catch localPromise (\<lambda>e. EmptyCompletionItems) in
      case Promise_all schedule
             [getLibraryCompletionItems, getKeywords, getEnvironmentCompletionItems,
              getLocalCompletionItems] of
        None \<Rightarrow> None
      | Some (Rejected e) \<Rightarrow> Some (Rejected e)
      | Some (Fulfilled responses) \<Rightarrow>
          (let libraryResponse = responses ! 0;
               keywordResponse = responses ! 1;
               environmentResponse = responses ! 2;
               localResponse = responses ! 3
           in Some (Fulfilled
                (keywordResponse @ libraryResponse @ environmentResponse @ localResponse))))))))"

definition DocumentAnalysis_getHover ::
  "('ins, 'ce, 'h, 'sh, 'sx) Modules \<Rightarrow> nat list \<Rightarrow> ('ins, 'ce, 'ci, 'h, 'sh, 'sx) DocumentAnalysis
     \<Rightarrow> 'h option Promise option" where
  "DocumentAnalysis_getHover env schedule this =
     (case maybeIdentifierAt env (document this) (position this) of
        None \<Rightarrow> Some (Fulfilled (Some (EmptyHover env)))
      | Some identifierToken \<Rightarrow>
          (let context =
                 \<lparr>hover_range = getTokenRangeForPosition identifierToken (position this),
                  hover_identifier = data identifierToken\<rparr>
           in case getHover (librarySymbolProvider this) context of
                Throws e \<Rightarrow> Some (Rejected e)
              | Returns libraryPromise \<Rightarrow>
                  (let getLibraryHover = promise_catch libraryPromise (\<lambda>e. None)
                   in case Promise_all schedule [getLibraryHover] of
                        None \<Rightarrow> None
                      | Some (Rejected e) \<Rightarrow> Some (Rejected e)
                      | Some (Fulfilled responses) \<Rightarrow>
                          (case responses ! 0 of
                             Some libraryResponse \<Rightarrow> Some (Fulfilled (Some libraryResponse))
                           | None \<Rightarrow> Some (Fulfilled (Some (EmptyHover env)))))))"

definition DocumentAnalysis_getSignatureHelp ::
  "('ins, 'ce, 'h, 'sh, 'sx) Modules \<Rightarrow> nat list \<Rightarrow> ('ins, 'ce, 'ci, 'h, 'sh, 'sx) DocumentAnalysis
     \<Rightarrow> 'sh option Promise option" where
  "DocumentAnalysis_getSignatureHelp env schedule this =
     (case WorkspaceCache_maybeTriedInspection env (document this) (position this) of
        None \<Rightarrow> Some (Fulfilled (Some (EmptySignatureHelp env)))
      | Some (Err e) \<Rightarrow> Some (Fulfilled (Some (EmptySignatureHelp env)))
      | Some (Ok inspected) \<Rightarrow>
          (case maybeSignatureProviderContext env inspected of
             None \<Rightarrow> Some (Fulfilled (Some (EmptySignatureHelp env)))
           | Some context \<Rightarrow>
               (case maybeFunctionName context of
                  None \<Rightarrow> Some (Fulfilled (Some (EmptySignatureHelp env)))
                | Some functionName \<Rightarrow>
                    (case getSignatureHelp (librarySymbolProvider this) context of
                       Throws e \<Rightarrow> Some (Rejected e)
                     | Returns libraryPromise \<Rightarrow>
                         (let librarySignatureHelp = promise_catch libraryPromise (\<lambda>e. None)
                          in case Promise_all schedule [librarySignatureHelp] of
                               None \<Rightarrow> None
                             | Some (Rejected e) \<Rightarrow> Some (Rejected e)
                             | Some (Fulfilled responses) \<Rightarrow>
                                 (case responses ! 0 of
                                    Some libraryResponse \<Rightarrow>
                                      Some (Fulfilled (Some libraryResponse))
                                  | None \<Rightarrow>
                                      Some (Fulfilled (Some (EmptySignatureHelp env)))))))))"

section \<open>The stages without the cache\<close>

text \<open>
  What the four stages compute for a document when nothing is cached, and the calls to the
  parser library this takes. The cached getters are compared with these below.
\<close>

definition lexOf ::
  "('le, 'sn, 'po, 'pe, 'ins, 'ce, 'r, 'z) PQP \<Rightarrow> TextDocument \<Rightarrow> string option \<Rightarrow> 'le LexerCacheItem" where
  "lexOf pqp d ml = tryLex pqp (getSettings pqp ml None) (getText d None)"

definition snapshotOf ::
  "('le, 'sn, 'po, 'pe, 'ins, 'ce, 'r, 'z) PQP \<Rightarrow> TextDocument \<Rightarrow> string option \<Rightarrow> ('le, 'sn, 'po, 'pe, 'ins, 'ce) TCacheItem" where
  "snapshotOf pqp d ml =
     (case lexOf pqp d ml of
        Err e \<Rightarrow> LexerCacheItem (Err e)
      | Ok lexerState \<Rightarrow> LexerSnapshotCacheItem (trySnapshot pqp lexerState))"

definition parseOf ::
  "('le, 'sn, 'po, 'pe, 'ins, 'ce, 'r, 'z) PQP \<Rightarrow> TextDocument \<Rightarrow> string option \<Rightarrow> ('le, 'sn, 'po, 'pe, 'ins, 'ce) TCacheItem" where
  "parseOf pqp d ml =
     (case snapshotOf pqp d ml of
        LexerSnapshotCacheItem (Ok lexerSnapshot) \<Rightarrow>
          ParserCacheItem (tryParse pqp (getSettings pqp ml None) lexerSnapshot)
      | item \<Rightarrow> item)"

definition snapshotCalls ::
  "('le, 'sn, 'po, 'pe, 'ins, 'ce, 'r, 'z) PQP \<Rightarrow> TextDocument \<Rightarrow> string option \<Rightarrow> EngineCall list" where
  "snapshotCalls pqp d ml =
     TryLex # (case lexOf pqp d ml of Err e \<Rightarrow> [] | Ok lexerState \<Rightarrow> [TrySnapshot])"

definition parseCalls ::
  "('le, 'sn, 'po, 'pe, 'ins, 'ce, 'r, 'z) PQP \<Rightarrow> TextDocument \<Rightarrow> string option \<Rightarrow> EngineCall list" where
  "parseCalls pqp d ml =
     snapshotCalls pqp d ml @
       (case snapshotOf pqp d ml of LexerSnapshotCacheItem (Ok lexerSnapshot) \<Rightarrow> [TryParse] | item \<Rightarrow> [])"

definition inspectItem ::
  "('le, 'sn, 'po, 'pe, 'ins, 'ce, 'r, 'z) PQP \<Rightarrow> PositionObject \<Rightarrow> string option \<Rightarrow> 'r option
     \<Rightarrow> ('le, 'sn, 'po, 'pe, 'ins, 'ce) TCacheItem \<Rightarrow> ('le, 'sn, 'po, 'pe, 'ins, 'ce) TCacheItem" where
  "inspectItem pqp pos ml mr parserCacheItem =
     (case parserCacheItem of
        ParserCacheItem triedParse \<Rightarrow>
          InspectionCacheItem
            (tryInspection pqp (getSettings pqp ml mr) triedParse
               \<lparr>lineCodeUnit = character pos, lineNumber = line pos\<rparr>)
      | item \<Rightarrow> item)"

definition inspectCalls :: "('le, 'sn, 'po, 'pe, 'ins, 'ce) TCacheItem \<Rightarrow> EngineCall list" where
  "inspectCalls parserCacheItem =
     (case parserCacheItem of ParserCacheItem triedParse \<Rightarrow> [TryInspection] | item \<Rightarrow> [])"

section \<open>Invariants of the cache\<close>

text \<open>
  \<open>cacheAgrees\<close>: whatever the three pipeline maps hold for the document is what the stages
  compute for it (under the locale given). It holds when nothing is cached for the
  document, and the getters keep it.
\<close>

definition cacheAgrees ::
  "('le, 'sn, 'po, 'pe, 'ins, 'ce, 'r, 'z) PQP \<Rightarrow> TextDocument \<Rightarrow> string option
     \<Rightarrow> ('le, 'sn, 'po, 'pe, 'ins, 'ce) Workspace \<Rightarrow> bool" where
  "cacheAgrees pqp d ml s =
     (LexerStateCache s (uri d) \<in> {None, Some (lexOf pqp d ml)} \<and>
      LexerSnapshotCache s (uri d) \<in> {None, Some (snapshotOf pqp d ml)} \<and>
      ParserCache s (uri d) \<in> {None, Some (parseOf pqp d ml)})"

text \<open>
  \<open>okStage\<close>: an item handed out for a requested stage either is an error or carries the
  tag of that stage. \<open>stageInv\<close> says so of every stored item; \<open>reachable\<close> are the
  states the module can be in: the maps start empty and change through the exported
  functions only.
\<close>

definition okStage ::
  "CacheStageKind \<Rightarrow> ('le, 'sn, 'po, 'pe, 'ins, 'ce) TCacheItem \<Rightarrow> bool" where
  "okStage requested item = (itemIsErr item \<or> stage item = requested)"

definition stageInv :: "('le, 'sn, 'po, 'pe, 'ins, 'ce) Workspace \<Rightarrow> bool" where
  "stageInv s =
     ((\<forall>u item. LexerSnapshotCache s u = Some item \<longrightarrow> okStage LexerSnapshot item) \<and>
      (\<forall>u item. ParserCache s u = Some item \<longrightarrow> okStage Parser item) \<and>
      (\<forall>u positionCache i item.
         InspectionCache s u = Some positionCache \<longrightarrow> positionCache i = Some item \<longrightarrow>
         okStage Inspection item))"

definition inspectionCached ::
  "('le, 'sn, 'po, 'pe, 'ins, 'ce) Workspace \<Rightarrow> TextDocument \<Rightarrow> nat
     \<Rightarrow> ('le, 'sn, 'po, 'pe, 'ins, 'ce) TCacheItem option" where
  "inspectionCached s d i =
     (case InspectionCache s (uri d) of None \<Rightarrow> None | Some positionCache \<Rightarrow> positionCache i)"

inductive reachable ::
  "('le, 'sn, 'po, 'pe, 'ins, 'ce, 'r, 'z) PQP \<Rightarrow> ('le, 'sn, 'po, 'pe, 'ins, 'ce) Workspace \<Rightarrow> bool"
  for pqp :: "('le, 'sn, 'po, 'pe, 'ins, 'ce, 'r, 'z) PQP" where
  reachable_empty: "reachable pqp emptyWorkspace"
| reachable_getLexerState:
    "reachable pqp s \<Longrightarrow> reachable pqp (snd (getLexerState pqp d ml s))"
| reachable_getTriedLexerSnapshot:
    "reachable pqp s \<Longrightarrow> reachable pqp (snd (getTriedLexerSnapshot pqp d ml s))"
| reachable_getTriedParse:
    "reachable pqp s \<Longrightarrow> reachable pqp (snd (getTriedParse pqp d ml s))"
| reachable_getTriedInspection:
    "reachable pqp s \<Longrightarrow> reachable pqp (snd (getTriedInspection pqp d pos ml mr s))"
| reachable_close: "reachable pqp s \<Longrightarrow> reachable pqp (close d s)"
| reachable_update: "reachable pqp s \<Longrightarrow> reachable pqp (update d changes version s)"

definition positionCacheOf ::
  "('le, 'sn, 'po, 'pe, 'ins, 'ce) Workspace \<Rightarrow> TextDocument
     \<Rightarrow> (nat \<rightharpoonup> ('le, 'sn, 'po, 'pe, 'ins, 'ce) TCacheItem)" where
  "positionCacheOf s d =
     (case InspectionCache s (uri d) of None \<Rightarrow> Map.empty | Some positionCache \<Rightarrow> positionCache)"

section \<open>The position resolver, as specified\<close>

text \<open>
  The resolver in the words of its description: the first token of the cursor's line whose
  span \<open>[start, end]\<close> contains the cursor; failing that, when the character before the
  cursor is a dot, the first identifier token that ends exactly at the dot (its span is
  \<open>[start, end]\<close> with \<open>start \<le> end\<close> and \<open>end\<close> the offset of the dot), with the dot
  appended to its text and its end moved by one; otherwise nothing. A line that does not
  exist has no tokens.
\<close>

definition lineTokensOf :: "LexerState \<Rightarrow> int \<Rightarrow> LineToken list" where
  "lineTokensOf lexerState n =
     (if 0 \<le> n \<and> nat n < length (lines lexerState) then tokens (lines lexerState ! nat n) else [])"

definition spanContains :: "LineToken \<Rightarrow> int \<Rightarrow> bool" where
  "spanContains token c = (positionStart token \<le> c \<and> c \<le> positionEnd token)"

definition endsExactlyAt :: "LineToken \<Rightarrow> int \<Rightarrow> bool" where
  "endsExactlyAt token c = (positionStart token \<le> positionEnd token \<and> positionEnd token = c)"

definition withTrailingDot :: "LineToken \<Rightarrow> LineToken" where
  "withTrailingDot token = token\<lparr>data := data token @ ''.'', positionEnd := positionEnd token + 1\<rparr>"

definition characterBefore :: "TextDocument \<Rightarrow> Position \<Rightarrow> string" where
  "characterBefore doc pos =
     getText doc (Some \<lparr>range_start = \<lparr>line = line pos, character = character pos - 1\<rparr>,
                        range_end = pos\<rparr>)"

definition spec_maybeTokenAt :: "LexerState \<Rightarrow> TextDocument \<Rightarrow> Position \<Rightarrow> LineToken option" where
  "spec_maybeTokenAt lexerState doc pos =
     (case find (\<lambda>token. spanContains token (character pos)) (lineTokensOf lexerState (line pos)) of
        Some token \<Rightarrow> Some token
      | None \<Rightarrow>
          (if characterBefore doc pos = ''.'' then
             map_option withTrailingDot
               (find (\<lambda>token. kind token = Identifier \<and> endsExactlyAt token (character pos - 1))
                  (lineTokensOf lexerState (line pos)))
           else None))"

section \<open>What the completion request asks and gets\<close>

text \<open>
  The context handed to the four providers; the four calls in the order the source makes
  them (library, keyword, environment, local); the error of the first call that throws
  before returning a promise, if there is one; and what a provider contributes to the
  answer: its items, or nothing when its promise is rejected.
\<close>

definition completionContext ::
  "('ins, 'ce, 'h, 'sh, 'sx) Modules \<Rightarrow> ('ins, 'ce, 'ci, 'h, 'sh, 'sx) DocumentAnalysis
     \<Rightarrow> CompletionItemProviderContext" where
  "completionContext env this =
     (case maybeTokenAt env (document this) (position this) of
        None \<Rightarrow> \<lparr>context_range = None, context_text = None, context_tokenKind = None\<rparr>
      | Some token \<Rightarrow>
          \<lparr>context_range = Some (getTokenRangeForPosition token (position this)),
           context_text = Some (data token),
           context_tokenKind = Some (kind token)\<rparr>)"

definition completionCalls ::
  "('ins, 'ce, 'h, 'sh, 'sx) Modules \<Rightarrow> ('ins, 'ce, 'ci, 'h, 'sh, 'sx) DocumentAnalysis
     \<Rightarrow> 'ci list Promise Call list" where
  "completionCalls env this =
     [getCompletionItems (librarySymbolProvider this) (completionContext env this),
      getCompletionItems (keywordProvider this) (completionContext env this),
      getCompletionItems (environmentSymbolProvider this) (completionContext env this),
      getCompletionItems (localSymbolProvider this) (completionContext env this)]"

fun firstThrown :: "'a Call list \<Rightarrow> string option" where
  "firstThrown [] = None"
| "firstThrown (Throws e # calls) = Some e"
| "firstThrown (Returns p # calls) = firstThrown calls"

definition contribution ::
  "('ci, 'p) CompletionItemProvider_scheme \<Rightarrow> CompletionItemProviderContext \<Rightarrow> 'ci list" where
  "contribution provider context =
     (case getCompletionItems provider context of
        Returns (Fulfilled items) \<Rightarrow> items
      | Returns (Rejected e) \<Rightarrow> []
      | Throws e \<Rightarrow> [])"

section \<open>Concrete inputs\<close>

text \<open>
  A one-line document \<^verbatim>\<open>foo.\<close> whose lexer state holds the identifier \<^verbatim>\<open>foo\<close> at \<open>[0, 3]\<close>,
  three parser libraries (one whose lexer fails, one whose parser fails, one that succeeds
  throughout), two position objects with the same line and character, and an analysis
  session over four providers, with variants in which one provider's promise is rejected
  and in which one provider throws before returning a promise.
\<close>

definition exSettings :: "unit Settings" where
  "exSettings = \<lparr>settings_locale = ''en-US'', maybeExternalTypeResolver = None\<rparr>"

definition exLexerState :: LexerState where
  "exLexerState =
     \<lparr>lines = [\<lparr>tokens = [\<lparr>data = ''foo'', kind = Identifier,
                             positionStart = 0, positionEnd = 3\<rparr>]\<rparr>]\<rparr>"

definition exGetText :: "Range option \<Rightarrow> string" where
  "exGetText r =
     (case r of
        None \<Rightarrow> ''foo.''
      | Some r \<Rightarrow>
          (if line (range_start r) = 0 \<and> line (range_end r) = 0
           then drop (nat (character (range_start r))) (take (nat (character (range_end r))) ''foo.'')
           else []))"

definition exDocument :: TextDocument where
  "exDocument = \<lparr>uri = ''file:///query.pq'', getText = exGetText\<rparr>"

definition pqpLexFails :: "(string, nat, nat, string, nat, string, unit, unit) PQP" where
  "pqpLexFails =
     \<lparr>tryLex = (\<lambda>settings text. Err ''lex error''),
      trySnapshot = (\<lambda>lexerState. Ok 1),
      tryParse = (\<lambda>settings lexerSnapshot. Ok 2),
      tryInspection = (\<lambda>settings triedParse pos. Ok 3),
      DefaultSettings = exSettings\<rparr>"

definition pqpParseFails :: "(string, nat, nat, string, nat, string, unit, unit) PQP" where
  "pqpParseFails =
     \<lparr>tryLex = (\<lambda>settings text. Ok exLexerState),
      trySnapshot = (\<lambda>lexerState. Ok 1),
      tryParse = (\<lambda>settings lexerSnapshot. Err ''parse error''),
      tryInspection = (\<lambda>settings triedParse pos. Ok 3),
      DefaultSettings = exSettings\<rparr>"

definition pqpSucceeds :: "(string, nat, nat, string, nat, string, unit, unit) PQP" where
  "pqpSucceeds =
     \<lparr>tryLex = (\<lambda>settings text. Ok exLexerState),
      trySnapshot = (\<lambda>lexerState. Ok 1),
      tryParse = (\<lambda>settings lexerSnapshot. Ok 2),
      tryInspection = (\<lambda>settings triedParse pos. Ok 3),
      DefaultSettings = exSettings\<rparr>"

definition exPositionA :: PositionObject where
  "exPositionA = \<lparr>line = 0, character = 2, ident = 1\<rparr>"

definition exPositionB :: PositionObject where
  "exPositionB = \<lparr>line = 0, character = 2, ident = 2\<rparr>"

definition exModules :: "(nat, string, string, string, unit) Modules" where
  "exModules =
     \<lparr>WorkspaceCache_getLexerState = (\<lambda>doc. exLexerState),
      WorkspaceCache_maybeTriedInspection = (\<lambda>doc pos. Some (Ok 3)),
      maybeSignatureProviderContext = (\<lambda>inspected. Some \<lparr>maybeFunctionName = Some ''Test.SquareIfNumber''\<rparr>),
      EmptyHover = ''EmptyHover'',
      EmptySignatureHelp = ''EmptySignatureHelp''\<rparr>"

definition exKeywordProvider :: "string CompletionItemProvider" where
  "exKeywordProvider = \<lparr>getCompletionItems = (\<lambda>context. Returns (Fulfilled [''let'', ''in'']))\<rparr>"

definition exLibraryProvider :: "(string, string, string, unit) SymbolProvider" where
  "exLibraryProvider =
     \<lparr>getCompletionItems = (\<lambda>context. Returns (Fulfilled [''Test.Number'', ''Test.NumberOne''])),
      getHover = (\<lambda>context. Returns (Fulfilled (Some ''[library constant] Test.Number: number''))),
      getSignatureHelp = (\<lambda>context. Returns (Fulfilled None))\<rparr>"

definition exEnvironmentProvider :: "(string, string, string, unit) SymbolProvider" where
  "exEnvironmentProvider =
     \<lparr>getCompletionItems = (\<lambda>context. Returns (Fulfilled [''Env.Value''])),
      getHover = (\<lambda>context. Returns (Fulfilled None)),
      getSignatureHelp = (\<lambda>context. Returns (Fulfilled None))\<rparr>"

definition exLocalProvider :: "(string, string, string, unit) SymbolProvider" where
  "exLocalProvider =
     \<lparr>getCompletionItems = (\<lambda>context. Returns (Fulfilled [''foo'', ''let''])),
      getHover = (\<lambda>context. Returns (Fulfilled None)),
      getSignatureHelp = (\<lambda>context. Returns (Fulfilled None))\<rparr>"

definition exFailingProvider :: "(string, string, string, unit) SymbolProvider" where
  "exFailingProvider =
     \<lparr>getCompletionItems = (\<lambda>context. Returns (Rejected ''provider failed'')),
      getHover = (\<lambda>context. Returns (Rejected ''provider failed'')),
      getSignatureHelp = (\<lambda>context. Returns (Rejected ''provider failed''))\<rparr>"

definition exThrowingProvider :: "(string, string, string, unit) SymbolProvider" where
  "exThrowingProvider =
     \<lparr>getCompletionItems = (\<lambda>context. Throws ''provider threw''),
      getHover = (\<lambda>context. Throws ''provider threw''),
      getSignatureHelp = (\<lambda>context. Throws ''provider threw'')\<rparr>"

definition exAnalysis :: "(nat, string, string, string, string, unit) DocumentAnalysis" where
  "exAnalysis =
     \<lparr>document = exDocument, position = \<lparr>line = 0, character = 4\<rparr>,
      maybeTriedInspection = Some (Ok 3),
      environmentSymbolProvider = exEnvironmentProvider,
      keywordProvider = exKeywordProvider,
      librarySymbolProvider = exLibraryProvider,
      localSymbolProvider = exLocalProvider\<rparr>"

definition exAnalysisLibraryFails ::
  "(nat, string, string, string, string, unit) DocumentAnalysis" where
  "exAnalysisLibraryFails = exAnalysis\<lparr>librarySymbolProvider := exFailingProvider\<rparr>"

definition exAnalysisLibraryThrows ::
  "(nat, string, string, string, string, unit) DocumentAnalysis" where
  "exAnalysisLibraryThrows = exAnalysis\<lparr>librarySymbolProvider := exThrowingProvider\<rparr>"

definition exAnalysisEnvironmentThrows ::
  "(nat, string, string, string, string, unit) DocumentAnalysis" where
  "exAnalysisEnvironmentThrows = exAnalysis\<lparr>environmentSymbolProvider := exThrowingProvider\<rparr>"

section \<open>Facts about the cached getters\<close>

lemmas example_defs = exSettings_def exLexerState_def exGetText_def exDocument_def pqpLexFails_def
  pqpParseFails_def pqpSucceeds_def exPositionA_def exPositionB_def exModules_def
  exKeywordProvider_def exLibraryProvider_def exEnvironmentProvider_def exLocalProvider_def
  exFailingProvider_def exThrowingProvider_def exAnalysis_def exAnalysisLibraryFails_def
  exAnalysisLibraryThrows_def exAnalysisEnvironmentThrows_def

lemmas cache_defs = getTriedInspection_def createTriedInspection_def getTriedParse_def
  createParserCacheItem_def getTriedLexerSnapshot_def createLexerSnapshotCacheItem_def
  getLexerState_def createLexerCacheItem_def getOrCreate_def logCall_def getSettings_def
  emptyWorkspace_def Let_def

lemma getLexerState_hit:
  "LexerStateCache s (uri d) = Some v \<Longrightarrow> getLexerState pqp d ml s = (v, s)"
  by (simp add: getLexerState_def getOrCreate_def)

lemma getTriedLexerSnapshot_hit:
  "LexerSnapshotCache s (uri d) = Some v \<Longrightarrow> getTriedLexerSnapshot pqp d ml s = (v, s)"
  by (simp add: getTriedLexerSnapshot_def getOrCreate_def)

lemma getTriedParse_hit:
  "ParserCache s (uri d) = Some v \<Longrightarrow> getTriedParse pqp d ml s = (v, s)"
  by (simp add: getTriedParse_def getOrCreate_def)




lemma getLexerState_miss:
  "LexerStateCache s (uri d) = None \<Longrightarrow>
   getLexerState pqp d ml s =
     (lexOf pqp d ml,
      s\<lparr>LexerStateCache := (LexerStateCache s)(uri d \<mapsto> lexOf pqp d ml),
        engineCalls := engineCalls s @ [TryLex]\<rparr>)"
  by (simp add: getLexerState_def getOrCreate_def createLexerCacheItem_def logCall_def lexOf_def)

lemma getTriedLexerSnapshot_miss:
  "LexerStateCache s (uri d) = None \<Longrightarrow> LexerSnapshotCache s (uri d) = None \<Longrightarrow>
   getTriedLexerSnapshot pqp d ml s =
     (snapshotOf pqp d ml,
      s\<lparr>LexerStateCache := (LexerStateCache s)(uri d \<mapsto> lexOf pqp d ml),
        LexerSnapshotCache := (LexerSnapshotCache s)(uri d \<mapsto> snapshotOf pqp d ml),
        engineCalls := engineCalls s @ snapshotCalls pqp d ml\<rparr>)"
  by (simp add: getTriedLexerSnapshot_def getOrCreate_def createLexerSnapshotCacheItem_def
      getLexerState_miss logCall_def snapshotOf_def snapshotCalls_def Let_def split: result.splits)

lemma getTriedParse_miss:
  "LexerStateCache s (uri d) = None \<Longrightarrow> LexerSnapshotCache s (uri d) = None \<Longrightarrow>
   ParserCache s (uri d) = None \<Longrightarrow>
   getTriedParse pqp d ml s =
     (parseOf pqp d ml,
      s\<lparr>LexerStateCache := (LexerStateCache s)(uri d \<mapsto> lexOf pqp d ml),
        LexerSnapshotCache := (LexerSnapshotCache s)(uri d \<mapsto> snapshotOf pqp d ml),
        ParserCache := (ParserCache s)(uri d \<mapsto> parseOf pqp d ml),
        engineCalls := engineCalls s @ parseCalls pqp d ml\<rparr>)"
  by (simp add: getTriedParse_def getOrCreate_def createParserCacheItem_def
      getTriedLexerSnapshot_miss logCall_def parseOf_def parseCalls_def Let_def
      split: result.splits TCacheItem.splits)

lemma getLexerState_agrees:
  assumes "cacheAgrees pqp d ml s"
  shows "\<exists>s' cs. getLexerState pqp d ml s = (lexOf pqp d ml, s') \<and> cacheAgrees pqp d ml s' \<and>
           engineCalls s' = engineCalls s @ cs \<and> set cs \<subseteq> {TryLex}"
proof (cases "LexerStateCache s (uri d)")
  case None
  then show ?thesis using assms
    by (simp add: getLexerState_miss cacheAgrees_def)
next
  case (Some v)
  then show ?thesis using assms
    by (simp add: getLexerState_hit cacheAgrees_def)
qed

lemma getTriedLexerSnapshot_agrees:
  assumes "cacheAgrees pqp d ml s"
  shows "\<exists>s' cs. getTriedLexerSnapshot pqp d ml s = (snapshotOf pqp d ml, s') \<and>
           cacheAgrees pqp d ml s' \<and>
           engineCalls s' = engineCalls s @ cs \<and> set cs \<subseteq> set (snapshotCalls pqp d ml)"
proof (cases "LexerSnapshotCache s (uri d)")
  case None
  obtain s1 cs1 where l: "getLexerState pqp d ml s = (lexOf pqp d ml, s1)"
    and a1: "cacheAgrees pqp d ml s1" and c1: "engineCalls s1 = engineCalls s @ cs1"
    and sub: "set cs1 \<subseteq> {TryLex}"
    using getLexerState_agrees [OF assms] by blast
  show ?thesis
  proof (cases "lexOf pqp d ml")
    case (Ok ls)
    have "getTriedLexerSnapshot pqp d ml s =
            (snapshotOf pqp d ml,
             (logCall TrySnapshot s1)\<lparr>LexerSnapshotCache :=
                (LexerSnapshotCache (logCall TrySnapshot s1))(uri d \<mapsto> snapshotOf pqp d ml)\<rparr>)"
      using None l Ok
      by (simp add: getTriedLexerSnapshot_def getOrCreate_def createLexerSnapshotCacheItem_def
          snapshotOf_def Let_def)
    moreover have "cacheAgrees pqp d ml
             ((logCall TrySnapshot s1)\<lparr>LexerSnapshotCache :=
                (LexerSnapshotCache (logCall TrySnapshot s1))(uri d \<mapsto> snapshotOf pqp d ml)\<rparr>)"
      using a1 by (simp add: cacheAgrees_def logCall_def)
    moreover have "engineCalls ((logCall TrySnapshot s1)\<lparr>LexerSnapshotCache :=
                (LexerSnapshotCache (logCall TrySnapshot s1))(uri d \<mapsto> snapshotOf pqp d ml)\<rparr>)
                 = engineCalls s @ (cs1 @ [TrySnapshot])"
      using c1 by (simp add: logCall_def)
    moreover have "set (cs1 @ [TrySnapshot]) \<subseteq> set (snapshotCalls pqp d ml)"
      using sub Ok by (auto simp: snapshotCalls_def)
    ultimately show ?thesis by blast
  next
    case (Err e)
    have "getTriedLexerSnapshot pqp d ml s =
            (snapshotOf pqp d ml,
             s1\<lparr>LexerSnapshotCache := (LexerSnapshotCache s1)(uri d \<mapsto> snapshotOf pqp d ml)\<rparr>)"
      using None l Err
      by (simp add: getTriedLexerSnapshot_def getOrCreate_def createLexerSnapshotCacheItem_def
          snapshotOf_def Let_def)
    moreover have "cacheAgrees pqp d ml
             (s1\<lparr>LexerSnapshotCache := (LexerSnapshotCache s1)(uri d \<mapsto> snapshotOf pqp d ml)\<rparr>)"
      using a1 by (simp add: cacheAgrees_def)
    moreover have "engineCalls (s1\<lparr>LexerSnapshotCache :=
                (LexerSnapshotCache s1)(uri d \<mapsto> snapshotOf pqp d ml)\<rparr>)
                 = engineCalls s @ cs1"
      using c1 by simp
    moreover have "set cs1 \<subseteq> set (snapshotCalls pqp d ml)"
      using sub by (auto simp: snapshotCalls_def)
    ultimately show ?thesis by blast
  qed
next
  case (Some v)
  then show ?thesis using assms
    by (simp add: getTriedLexerSnapshot_hit cacheAgrees_def)
qed

lemma getTriedParse_agrees:
  assumes "cacheAgrees pqp d ml s"
  shows "\<exists>s' cs. getTriedParse pqp d ml s = (parseOf pqp d ml, s') \<and>
           cacheAgrees pqp d ml s' \<and>
           engineCalls s' = engineCalls s @ cs \<and> set cs \<subseteq> set (parseCalls pqp d ml)"
proof (cases "ParserCache s (uri d)")
  case None
  obtain s1 cs1 where l: "getTriedLexerSnapshot pqp d ml s = (snapshotOf pqp d ml, s1)"
    and a1: "cacheAgrees pqp d ml s1" and c1: "engineCalls s1 = engineCalls s @ cs1"
    and sub: "set cs1 \<subseteq> set (snapshotCalls pqp d ml)"
    using getTriedLexerSnapshot_agrees [OF assms] by blast
  show ?thesis
  proof (cases "\<exists>sn. snapshotOf pqp d ml = LexerSnapshotCacheItem (Ok sn)")
    case True
    then obtain sn where sn: "snapshotOf pqp d ml = LexerSnapshotCacheItem (Ok sn)" by blast
    have "getTriedParse pqp d ml s =
            (parseOf pqp d ml,
             (logCall TryParse s1)\<lparr>ParserCache :=
                (ParserCache (logCall TryParse s1))(uri d \<mapsto> parseOf pqp d ml)\<rparr>)"
      using None l sn
      by (simp add: getTriedParse_def getOrCreate_def createParserCacheItem_def
          parseOf_def Let_def)
    moreover have "cacheAgrees pqp d ml
             ((logCall TryParse s1)\<lparr>ParserCache :=
                (ParserCache (logCall TryParse s1))(uri d \<mapsto> parseOf pqp d ml)\<rparr>)"
      using a1 by (simp add: cacheAgrees_def logCall_def)
    moreover have "engineCalls ((logCall TryParse s1)\<lparr>ParserCache :=
                (ParserCache (logCall TryParse s1))(uri d \<mapsto> parseOf pqp d ml)\<rparr>)
                 = engineCalls s @ (cs1 @ [TryParse])"
      using c1 by (simp add: logCall_def)
    moreover have "set (cs1 @ [TryParse]) \<subseteq> set (parseCalls pqp d ml)"
      using sub sn by (auto simp: parseCalls_def)
    ultimately show ?thesis by blast
  next
    case False
    have "getTriedParse pqp d ml s =
            (parseOf pqp d ml,
             s1\<lparr>ParserCache := (ParserCache s1)(uri d \<mapsto> parseOf pqp d ml)\<rparr>)"
      using None l False
      by (simp add: getTriedParse_def getOrCreate_def createParserCacheItem_def
          parseOf_def Let_def split: TCacheItem.splits result.splits)
    moreover have "cacheAgrees pqp d ml
             (s1\<lparr>ParserCache := (ParserCache s1)(uri d \<mapsto> parseOf pqp d ml)\<rparr>)"
      using a1 by (simp add: cacheAgrees_def)
    moreover have "engineCalls (s1\<lparr>ParserCache := (ParserCache s1)(uri d \<mapsto> parseOf pqp d ml)\<rparr>)
                 = engineCalls s @ cs1"
      using c1 by simp
    moreover have "set cs1 \<subseteq> set (parseCalls pqp d ml)"
      using sub by (auto simp: parseCalls_def)
    ultimately show ?thesis by blast
  qed
next
  case (Some v)
  then show ?thesis using assms
    by (simp add: getTriedParse_hit cacheAgrees_def)
qed

lemma cacheAgrees_empty: "cacheAgrees pqp d ml emptyWorkspace"
  by (simp add: cacheAgrees_def emptyWorkspace_def)

lemma cacheAgrees_close: "cacheAgrees pqp d ml (close d s)"
  by (simp add: cacheAgrees_def close_def)

lemma stageInv_logCall: "stageInv (logCall c s) = stageInv s"
  by (simp add: stageInv_def logCall_def)

lemma stageInv_LexerStateCache: "stageInv (s\<lparr>LexerStateCache := m\<rparr>) = stageInv s"
  by (simp add: stageInv_def)

lemma stageInv_store_snapshot:
  "stageInv s \<Longrightarrow> okStage LexerSnapshot item \<Longrightarrow>
   stageInv (s\<lparr>LexerSnapshotCache := (LexerSnapshotCache s)(u \<mapsto> item)\<rparr>)"
  unfolding stageInv_def by (simp split: if_splits)

lemma stageInv_store_parser:
  "stageInv s \<Longrightarrow> okStage Parser item \<Longrightarrow>
   stageInv (s\<lparr>ParserCache := (ParserCache s)(u \<mapsto> item)\<rparr>)"
  unfolding stageInv_def by (simp split: if_splits)

lemma stageInv_store_inspection:
  assumes "stageInv s" and "okStage Inspection item"
    and "\<forall>j other. positionCache j = Some other \<longrightarrow> okStage Inspection other"
  shows "stageInv (s\<lparr>InspectionCache := (InspectionCache s)(u \<mapsto> positionCache(i \<mapsto> item))\<rparr>)"
  using assms unfolding stageInv_def by (simp split: if_splits)

lemma stageInv_getLexerState: "stageInv s \<Longrightarrow> stageInv (snd (getLexerState pqp d ml s))"
  by (simp add: getLexerState_def getOrCreate_def createLexerCacheItem_def Let_def
      stageInv_logCall stageInv_LexerStateCache split: option.splits)

lemma okStage_forward_snapshot:
  "okStage LexerSnapshot item \<Longrightarrow> \<forall>sn. item \<noteq> LexerSnapshotCacheItem (Ok sn) \<Longrightarrow> itemIsErr item"
proof (cases item)
  case (LexerSnapshotCacheItem r)
  assume "okStage LexerSnapshot item" "\<forall>sn. item \<noteq> LexerSnapshotCacheItem (Ok sn)"
  then show ?thesis using LexerSnapshotCacheItem by (cases r) auto
qed (auto simp: okStage_def)

lemma okStage_forward_parser:
  "okStage Parser item \<Longrightarrow> \<forall>tp. item \<noteq> ParserCacheItem tp \<Longrightarrow> itemIsErr item"
  by (cases item) (auto simp: okStage_def)

lemma stageInv_getTriedLexerSnapshot:
  assumes "stageInv s"
  shows "stageInv (snd (getTriedLexerSnapshot pqp d ml s)) \<and>
         okStage LexerSnapshot (fst (getTriedLexerSnapshot pqp d ml s))"
proof (cases "LexerSnapshotCache s (uri d)")
  case (Some v)
  then show ?thesis using assms
    by (auto simp: getTriedLexerSnapshot_hit stageInv_def)
next
  case None
  obtain lx s1 where l: "getLexerState pqp d ml s = (lx, s1)" by (cases "getLexerState pqp d ml s")
  have i1: "stageInv s1" using stageInv_getLexerState [OF assms, of pqp d ml] l by simp
  show ?thesis
  proof (cases lx)
    case (Ok ls)
    have "getTriedLexerSnapshot pqp d ml s =
            (LexerSnapshotCacheItem (trySnapshot pqp ls),
             (logCall TrySnapshot s1)\<lparr>LexerSnapshotCache :=
                (LexerSnapshotCache (logCall TrySnapshot s1))
                  (uri d \<mapsto> LexerSnapshotCacheItem (trySnapshot pqp ls))\<rparr>)"
      using None l Ok
      by (simp add: getTriedLexerSnapshot_def getOrCreate_def createLexerSnapshotCacheItem_def
          Let_def)
    then show ?thesis using i1
      by (simp add: stageInv_store_snapshot stageInv_logCall okStage_def)
  next
    case (Err e)
    have "getTriedLexerSnapshot pqp d ml s =
            (LexerCacheItem (Err e),
             s1\<lparr>LexerSnapshotCache := (LexerSnapshotCache s1)(uri d \<mapsto> LexerCacheItem (Err e))\<rparr>)"
      using None l Err
      by (simp add: getTriedLexerSnapshot_def getOrCreate_def createLexerSnapshotCacheItem_def
          Let_def)
    then show ?thesis using i1
      by (simp add: stageInv_store_snapshot okStage_def)
  qed
qed

lemma stageInv_getTriedParse:
  assumes "stageInv s"
  shows "stageInv (snd (getTriedParse pqp d ml s)) \<and>
         okStage Parser (fst (getTriedParse pqp d ml s))"
proof (cases "ParserCache s (uri d)")
  case (Some v)
  then show ?thesis using assms
    by (auto simp: getTriedParse_hit stageInv_def)
next
  case None
  obtain x s1 where l: "getTriedLexerSnapshot pqp d ml s = (x, s1)"
    by (cases "getTriedLexerSnapshot pqp d ml s")
  have i1: "stageInv s1" and ok: "okStage LexerSnapshot x"
    using stageInv_getTriedLexerSnapshot [OF assms, of pqp d ml] l by simp_all
  show ?thesis
  proof (cases "\<exists>sn. x = LexerSnapshotCacheItem (Ok sn)")
    case True
    then obtain sn where sn: "x = LexerSnapshotCacheItem (Ok sn)" by blast
    have "getTriedParse pqp d ml s =
            (ParserCacheItem (tryParse pqp (getSettings pqp ml None) sn),
             (logCall TryParse s1)\<lparr>ParserCache :=
                (ParserCache (logCall TryParse s1))
                  (uri d \<mapsto> ParserCacheItem (tryParse pqp (getSettings pqp ml None) sn))\<rparr>)"
      using None l sn
      by (simp add: getTriedParse_def getOrCreate_def createParserCacheItem_def Let_def)
    then show ?thesis using i1
      by (simp add: stageInv_store_parser stageInv_logCall okStage_def)
  next
    case False
    then have e: "itemIsErr x" using okStage_forward_snapshot [OF ok] by blast
    have "getTriedParse pqp d ml s = (x, s1\<lparr>ParserCache := (ParserCache s1)(uri d \<mapsto> x)\<rparr>)"
      using None l False
      by (simp add: getTriedParse_def getOrCreate_def createParserCacheItem_def Let_def
          split: TCacheItem.splits result.splits)
    then show ?thesis using i1 e
      by (simp add: stageInv_store_parser okStage_def)
  qed
qed

lemma getTriedParse_InspectionCache:
  "getTriedParse pqp d ml (s\<lparr>InspectionCache := X\<rparr>) =
     (fst (getTriedParse pqp d ml s), (snd (getTriedParse pqp d ml s))\<lparr>InspectionCache := X\<rparr>)"
  by (simp add: getTriedParse_def getTriedLexerSnapshot_def getLexerState_def getOrCreate_def
      createParserCacheItem_def createLexerSnapshotCacheItem_def createLexerCacheItem_def
      logCall_def Let_def split: option.splits TCacheItem.splits result.splits)

lemma getTriedParse_frame:
  "InspectionCache (snd (getTriedParse pqp d ml s)) = InspectionCache s"
  by (simp add: getTriedParse_def getTriedLexerSnapshot_def getLexerState_def getOrCreate_def
      createParserCacheItem_def createLexerSnapshotCacheItem_def createLexerCacheItem_def
      logCall_def Let_def split: option.splits TCacheItem.splits result.splits)

lemma getTriedInspection_hit:
  "inspectionCached s d (ident pos) = Some item \<Longrightarrow>
   getTriedInspection pqp d pos ml mr s = (item, s)"
  by (auto simp: getTriedInspection_def inspectionCached_def Let_def split: option.splits)

lemma getTriedInspection_miss:
  assumes "inspectionCached s d (ident pos) = None" and "getTriedParse pqp d ml s = (p, s1)"
  shows "getTriedInspection pqp d pos ml mr s =
           (inspectItem pqp pos ml mr p,
            s1\<lparr>InspectionCache :=
                 (InspectionCache s)
                   (uri d \<mapsto> (positionCacheOf s d)(ident pos \<mapsto> inspectItem pqp pos ml mr p)),
               engineCalls := engineCalls s1 @ inspectCalls p\<rparr>)"
proof -
  have f: "InspectionCache s1 = InspectionCache s"
    using getTriedParse_frame [of pqp d ml s] assms(2) by simp
  show ?thesis
  proof (cases "InspectionCache s (uri d)")
    case None
    then show ?thesis using assms f
      by (cases p)
         (simp_all add: getTriedInspection_def createTriedInspection_def Let_def
           getTriedParse_InspectionCache inspectItem_def inspectCalls_def positionCacheOf_def
           logCall_def)
  next
    case (Some pc)
    then show ?thesis using assms f
      by (cases p)
         (simp_all add: getTriedInspection_def createTriedInspection_def Let_def
           inspectionCached_def inspectItem_def inspectCalls_def positionCacheOf_def logCall_def)
  qed
qed



lemma stageInv_getTriedInspection:
  assumes "stageInv s"
  shows "stageInv (snd (getTriedInspection pqp d pos ml mr s)) \<and>
         okStage Inspection (fst (getTriedInspection pqp d pos ml mr s))"
proof (cases "inspectionCached s d (ident pos)")
  case (Some item)
  then have "okStage Inspection item" using assms
    by (auto simp: stageInv_def inspectionCached_def split: option.splits)
  then show ?thesis using assms getTriedInspection_hit [OF Some, of pqp ml mr] by simp
next
  case None
  obtain p s1 where p: "getTriedParse pqp d ml s = (p, s1)" by (cases "getTriedParse pqp d ml s")
  have i1: "stageInv s1" and ok: "okStage Parser p"
    using stageInv_getTriedParse [OF assms, of pqp d ml] p by simp_all
  have f: "InspectionCache s1 = InspectionCache s"
    using getTriedParse_frame [of pqp d ml s] p by simp
  have okr: "okStage Inspection (inspectItem pqp pos ml mr p)"
  proof (cases "\<exists>tp. p = ParserCacheItem tp")
    case True
    then show ?thesis by (auto simp: inspectItem_def okStage_def)
  next
    case False
    then have "itemIsErr p" using okStage_forward_parser [OF ok] by blast
    moreover have "inspectItem pqp pos ml mr p = p" using False
      by (cases p) (auto simp: inspectItem_def)
    ultimately show ?thesis by (simp add: okStage_def)
  qed
  have old: "\<forall>j other. positionCacheOf s d j = Some other \<longrightarrow> okStage Inspection other"
    using assms by (auto simp: stageInv_def positionCacheOf_def split: option.splits)
  have "stageInv (s1\<lparr>engineCalls := engineCalls s1 @ inspectCalls p\<rparr>)"
    using i1 by (simp add: stageInv_def)
  from stageInv_store_inspection [OF this okr old, of "uri d" "ident pos"]
  have "stageInv (s1\<lparr>InspectionCache :=
                 (InspectionCache s)
                   (uri d \<mapsto> (positionCacheOf s d)(ident pos \<mapsto> inspectItem pqp pos ml mr p)),
               engineCalls := engineCalls s1 @ inspectCalls p\<rparr>)"
    using f by (simp add: stageInv_def)
  then show ?thesis using okr getTriedInspection_miss [OF None p, of mr] by simp
qed

lemma stageInv_empty: "stageInv emptyWorkspace"
  by (simp add: stageInv_def emptyWorkspace_def)

lemma stageInv_close: "stageInv s \<Longrightarrow> stageInv (close d s)"
  by (simp add: stageInv_def close_def)

lemma reachable_stageInv: "reachable pqp s \<Longrightarrow> stageInv s"
proof (induction rule: reachable.induct)
  case reachable_empty
  show ?case by (rule stageInv_empty)
next
  case (reachable_getLexerState s d ml)
  then show ?case by (simp add: stageInv_getLexerState)
next
  case (reachable_getTriedLexerSnapshot s d ml)
  then show ?case by (simp add: stageInv_getTriedLexerSnapshot)
next
  case (reachable_getTriedParse s d ml)
  then show ?case by (simp add: stageInv_getTriedParse)
next
  case (reachable_getTriedInspection s d pos ml mr)
  then show ?case by (simp add: stageInv_getTriedInspection)
next
  case (reachable_close s d)
  then show ?case by (simp add: stageInv_close)
next
  case (reachable_update s d changes version)
  then show ?case by (simp add: stageInv_close update_def)
qed




section \<open>The claims about the staged cache\<close>




text \<open>
  C2. When \<open>tryLex\<close> fails for a document, \<open>getTriedParse\<close> returns that very error, still
  tagged \<open>Lexer\<close>, and calls neither \<open>trySnapshot\<close> nor \<open>tryParse\<close>. The maps may be empty
  for the document or already hold what the stages compute for it.
\<close>

theorem getTriedParse_forwards_lex_error:
  assumes "cacheAgrees pqp d ml s"
    and "tryLex pqp (getSettings pqp ml None) (getText d None) = Err e"
  shows "fst (getTriedParse pqp d ml s) = LexerCacheItem (Err e) \<and>
         stage (fst (getTriedParse pqp d ml s)) = Lexer \<and>
         (\<exists>cs. engineCalls (snd (getTriedParse pqp d ml s)) = engineCalls s @ cs \<and>
               TrySnapshot \<notin> set cs \<and> TryParse \<notin> set cs)"
proof -
  have l: "lexOf pqp d ml = Err e" using assms(2) by (simp add: lexOf_def)
  then have p: "parseOf pqp d ml = LexerCacheItem (Err e)"
    and c: "parseCalls pqp d ml = [TryLex]"
    by (simp_all add: parseOf_def snapshotOf_def parseCalls_def snapshotCalls_def)
  obtain s' cs where "getTriedParse pqp d ml s = (parseOf pqp d ml, s')"
    and "engineCalls s' = engineCalls s @ cs" and "set cs \<subseteq> set (parseCalls pqp d ml)"
    using getTriedParse_agrees [OF assms(1)] by blast
  then show ?thesis using p c by auto
qed

text \<open>C2 at a document whose lexer fails, from the empty cache.\<close>

theorem getTriedParse_forwards_lex_error_witness:
  "cacheAgrees pqpLexFails exDocument None emptyWorkspace \<and>
   tryLex pqpLexFails (getSettings pqpLexFails None None) (getText exDocument None)
     = Err ''lex error'' \<and>
   fst (getTriedParse pqpLexFails exDocument None emptyWorkspace) = LexerCacheItem (Err ''lex error'')"
  using getTriedParse_forwards_lex_error
    [of pqpLexFails exDocument None emptyWorkspace "''lex error''"]
  by (simp add: cacheAgrees_empty) (simp add: pqpLexFails_def)

text \<open>
  C3 (as amended). A hit in the inspection cache returns the stored item and calls nothing.
  On a miss, \<open>getTriedInspection\<close> calls \<open>tryInspection\<close>, once, exactly when the item of the
  parse stage is tagged \<open>Parser\<close>, be it a successful parse or a parse error: the tried parse
  is handed to \<open>tryInspection\<close> and what that returns comes back tagged \<open>Inspection\<close>. Only
  when the item of the parse stage carries another tag, which is then the error of the
  lexer or of the snapshot, is that failure returned as it is without any call to
  \<open>tryInspection\<close>.
\<close>

theorem getTriedInspection_inspects_tried_parse:
  assumes "reachable pqp s"
  shows
    "(\<forall>item. inspectionCached s d (ident pos) = Some item \<longrightarrow>
        getTriedInspection pqp d pos ml mr s = (item, s)) \<and>
     (inspectionCached s d (ident pos) = None \<longrightarrow>
        (\<forall>triedParse. fst (getTriedParse pqp d ml s) = ParserCacheItem triedParse \<longrightarrow>
           fst (getTriedInspection pqp d pos ml mr s)
             = InspectionCacheItem
                 (tryInspection pqp (getSettings pqp ml mr) triedParse
                    \<lparr>lineCodeUnit = character pos, lineNumber = line pos\<rparr>) \<and>
           engineCalls (snd (getTriedInspection pqp d pos ml mr s))
             = engineCalls (snd (getTriedParse pqp d ml s)) @ [TryInspection]) \<and>
        (stage (fst (getTriedParse pqp d ml s)) \<noteq> Parser \<longrightarrow>
           itemIsErr (fst (getTriedParse pqp d ml s)) \<and>
           fst (getTriedInspection pqp d pos ml mr s) = fst (getTriedParse pqp d ml s) \<and>
           engineCalls (snd (getTriedInspection pqp d pos ml mr s))
             = engineCalls (snd (getTriedParse pqp d ml s))))"
proof -
  obtain p s1 where p: "getTriedParse pqp d ml s = (p, s1)" by (cases "getTriedParse pqp d ml s")
  have ok: "okStage Parser p"
    using stageInv_getTriedParse [OF reachable_stageInv [OF assms], of pqp d ml] p by simp
  have up: "stage p \<noteq> Parser \<Longrightarrow> itemIsErr p \<and> inspectItem pqp pos ml mr p = p \<and> inspectCalls p = []"
    using ok by (cases p) (auto simp: okStage_def inspectItem_def inspectCalls_def)
  show ?thesis
    using p up getTriedInspection_miss [of s d pos pqp ml p s1 mr]
    by (auto simp: getTriedInspection_hit inspectItem_def inspectCalls_def)
qed

text \<open>
  The amended C3 on two documents. When the lexer fails, its error comes back and the only
  call made is \<open>tryLex\<close>. When the parse stage is an error, that tried parse is inspected.
\<close>

theorem getTriedInspection_inspects_tried_parse_witness:
  "reachable pqpLexFails emptyWorkspace \<and>
   fst (getTriedInspection pqpLexFails exDocument exPositionA None None emptyWorkspace)
     = LexerCacheItem (Err ''lex error'') \<and>
   engineCalls (snd (getTriedInspection pqpLexFails exDocument exPositionA None None emptyWorkspace))
     = [TryLex] \<and>
   reachable pqpParseFails emptyWorkspace \<and>
   fst (getTriedParse pqpParseFails exDocument None emptyWorkspace)
     = ParserCacheItem (Err ''parse error'') \<and>
   fst (getTriedInspection pqpParseFails exDocument exPositionA None None emptyWorkspace)
     = InspectionCacheItem (Ok 3)"
  using getTriedInspection_inspects_tried_parse
      [OF reachable_empty, of exDocument exPositionA pqpLexFails None None]
    getTriedInspection_inspects_tried_parse
      [OF reachable_empty, of exDocument exPositionA pqpParseFails None None]
  by (simp add: reachable_empty inspectionCached_def)
     (simp add: cache_defs example_defs)

text \<open>
  C3 as stated fails: for a document that lexes but whose parse is an error, the parse stage
  returns that error tagged \<open>Parser\<close>, and \<open>getTriedInspection\<close> does call \<open>tryInspection\<close>
  and returns its outcome, here a success tagged \<open>Inspection\<close>, not the parse failure.
\<close>

theorem parse_error_is_inspected_counterexample:
  "fst (getTriedParse pqpParseFails exDocument None emptyWorkspace)
     = ParserCacheItem (Err ''parse error'') \<and>
   fst (getTriedInspection pqpParseFails exDocument exPositionA None None emptyWorkspace)
     = InspectionCacheItem (Ok 3) \<and>
   engineCalls (snd (getTriedInspection pqpParseFails exDocument exPositionA None None emptyWorkspace))
     = [TryLex, TrySnapshot, TryParse, TryInspection]"
  by (simp add: cache_defs example_defs)




text \<open>
  C8. \<open>close\<close> removes the document's entry from each of the four maps, and \<open>update\<close> does
  the same whatever the changes and the version. After it, each getter for the document
  computes anew: the list of calls to the parser library grows, starting with \<open>tryLex\<close>.
\<close>

theorem close_and_update_evict_document:
  "update d changes version s = close d s \<and>
   LexerStateCache (close d s) (uri d) = None \<and>
   LexerSnapshotCache (close d s) (uri d) = None \<and>
   ParserCache (close d s) (uri d) = None \<and>
   InspectionCache (close d s) (uri d) = None \<and>
   engineCalls (close d s) = engineCalls s \<and>
   getLexerState pqp d ml (close d s)
     = (lexOf pqp d ml,
        (close d s)\<lparr>LexerStateCache := (LexerStateCache (close d s))(uri d \<mapsto> lexOf pqp d ml),
                    engineCalls := engineCalls s @ [TryLex]\<rparr>) \<and>
   fst (getTriedLexerSnapshot pqp d ml (close d s)) = snapshotOf pqp d ml \<and>
   engineCalls (snd (getTriedLexerSnapshot pqp d ml (close d s)))
     = engineCalls s @ snapshotCalls pqp d ml \<and>
   fst (getTriedParse pqp d ml (close d s)) = parseOf pqp d ml \<and>
   engineCalls (snd (getTriedParse pqp d ml (close d s))) = engineCalls s @ parseCalls pqp d ml \<and>
   fst (getTriedInspection pqp d pos ml mr (close d s)) = inspectItem pqp pos ml mr (parseOf pqp d ml) \<and>
   engineCalls (snd (getTriedInspection pqp d pos ml mr (close d s)))
     = engineCalls s @ parseCalls pqp d ml @ inspectCalls (parseOf pqp d ml) \<and>
   length (engineCalls s) < length (engineCalls (snd (getLexerState pqp d ml (close d s)))) \<and>
   length (engineCalls s) < length (engineCalls (snd (getTriedLexerSnapshot pqp d ml (close d s)))) \<and>
   length (engineCalls s) < length (engineCalls (snd (getTriedParse pqp d ml (close d s)))) \<and>
   length (engineCalls s)
     < length (engineCalls (snd (getTriedInspection pqp d pos ml mr (close d s))))"
proof -
  have n: "LexerStateCache (close d s) (uri d) = None"
    "LexerSnapshotCache (close d s) (uri d) = None"
    "ParserCache (close d s) (uri d) = None"
    "InspectionCache (close d s) (uri d) = None"
    "engineCalls (close d s) = engineCalls s"
    by (simp_all add: close_def)
  have i: "inspectionCached (close d s) d (ident pos) = None"
    using n(4) by (simp add: inspectionCached_def)
  have l: "getLexerState pqp d ml (close d s)
     = (lexOf pqp d ml,
        (close d s)\<lparr>LexerStateCache := (LexerStateCache (close d s))(uri d \<mapsto> lexOf pqp d ml),
                    engineCalls := engineCalls s @ [TryLex]\<rparr>)"
    using getLexerState_miss [OF n(1), of pqp ml] n(5) by simp
  note sn = getTriedLexerSnapshot_miss [OF n(1) n(2), of pqp ml]
  note pa = getTriedParse_miss [OF n(1) n(2) n(3), of pqp ml]
  note ins = getTriedInspection_miss [OF i pa, of mr]
  have len: "0 < length (snapshotCalls pqp d ml)" "0 < length (parseCalls pqp d ml)"
    by (simp_all add: snapshotCalls_def parseCalls_def)
  show ?thesis
    using n l len by (simp add: update_def sn pa ins)
qed

text \<open>
  C8 on the example: a parse, an update, and a parse again make the three calls twice.
\<close>

theorem close_and_update_evict_document_witness:
  "engineCalls (snd (getTriedParse pqpSucceeds exDocument None
      (update exDocument [] 2 (snd (getTriedParse pqpSucceeds exDocument None emptyWorkspace)))))
     = [TryLex, TrySnapshot, TryParse, TryLex, TrySnapshot, TryParse]"
  using close_and_update_evict_document
    [of exDocument "[]" 2 "snd (getTriedParse pqpSucceeds exDocument None emptyWorkspace)"
        pqpSucceeds None exPositionA None]
  by (simp add: cache_defs example_defs parseCalls_def snapshotCalls_def snapshotOf_def lexOf_def)

text \<open>
  C10. In every state the module can reach, an item returned by \<open>getTriedLexerSnapshot\<close>,
  \<open>getTriedParse\<close> or \<open>getTriedInspection\<close> that is not an error carries the tag of the
  stage asked for; put the other way round, an item that carries the tag of an earlier
  stage is an error.
\<close>

theorem ok_item_carries_requested_stage:
  assumes "reachable pqp s"
  shows
    "(\<not> itemIsErr (fst (getTriedLexerSnapshot pqp d ml s)) \<longrightarrow>
        stage (fst (getTriedLexerSnapshot pqp d ml s)) = LexerSnapshot) \<and>
     (\<not> itemIsErr (fst (getTriedParse pqp d ml s)) \<longrightarrow>
        stage (fst (getTriedParse pqp d ml s)) = Parser) \<and>
     (\<not> itemIsErr (fst (getTriedInspection pqp d pos ml mr s)) \<longrightarrow>
        stage (fst (getTriedInspection pqp d pos ml mr s)) = Inspection) \<and>
     (stage (fst (getTriedLexerSnapshot pqp d ml s)) \<noteq> LexerSnapshot \<longrightarrow>
        itemIsErr (fst (getTriedLexerSnapshot pqp d ml s))) \<and>
     (stage (fst (getTriedParse pqp d ml s)) \<noteq> Parser \<longrightarrow>
        itemIsErr (fst (getTriedParse pqp d ml s))) \<and>
     (stage (fst (getTriedInspection pqp d pos ml mr s)) \<noteq> Inspection \<longrightarrow>
        itemIsErr (fst (getTriedInspection pqp d pos ml mr s)))"
  using stageInv_getTriedLexerSnapshot [OF reachable_stageInv [OF assms], of pqp d ml]
    stageInv_getTriedParse [OF reachable_stageInv [OF assms], of pqp d ml]
    stageInv_getTriedInspection [OF reachable_stageInv [OF assms], of pqp d pos ml mr]
  by (auto simp: okStage_def)

text \<open>
  C10 in the state reached by asking for the snapshot of a document whose lexer fails: the
  parse getter then returns an item tagged \<open>Lexer\<close>, and it is an error.
\<close>

theorem ok_item_carries_requested_stage_witness:
  "reachable pqpLexFails (snd (getTriedLexerSnapshot pqpLexFails exDocument None emptyWorkspace)) \<and>
   itemIsErr (fst (getTriedParse pqpLexFails exDocument None
      (snd (getTriedLexerSnapshot pqpLexFails exDocument None emptyWorkspace)))) \<and>
   stage (fst (getTriedParse pqpLexFails exDocument None
      (snd (getTriedLexerSnapshot pqpLexFails exDocument None emptyWorkspace)))) = Lexer"
  using ok_item_carries_requested_stage
      [OF reachable_getTriedLexerSnapshot [OF reachable_empty, of pqpLexFails exDocument None],
       where d = exDocument and ml = None and pos = exPositionA and mr = None]
    reachable_getTriedLexerSnapshot [OF reachable_empty, of pqpLexFails exDocument None]
  by (simp add: cache_defs example_defs)

section \<open>Facts about the analysis\<close>

lemma endsExactlyAt_wellformed:
  "positionStart token \<le> positionEnd token \<Longrightarrow> endsExactlyAt token c = (positionEnd token = c)"
  by (simp add: endsExactlyAt_def)

lemma loop1_find:
  "maybeTokenAt_loop1 c ts = find (\<lambda>token. spanContains token c) ts"
  by (induction ts) (simp_all add: spanContains_def)

lemma loop2_find:
  "\<forall>t \<in> set ts. \<not> spanContains t c \<Longrightarrow>
   maybeTokenAt_loop2 c ts =
     map_option withTrailingDot
       (find (\<lambda>token. kind token = Identifier \<and> endsExactlyAt token (c - 1)) ts)"
proof (induction ts)
  case Nil
  show ?case by simp
next
  case (Cons t ts)
  have "(positionStart t \<le> c - 1 \<and> positionEnd t \<ge> c - 1) = endsExactlyAt t (c - 1)"
    using Cons.prems by (auto simp: spanContains_def endsExactlyAt_def)
  then show ?case using Cons by (simp add: withTrailingDot_def)
qed

lemma promise_catch_eq: "promise_catch p h = Fulfilled (case p of Fulfilled v \<Rightarrow> v | Rejected e \<Rightarrow> h e)"
  by (cases p) simp_all

lemma those_map_Some: "those (map Some vs) = Some vs"
  by (induction vs) simp_all

lemma those_None: "None \<in> set acc \<Longrightarrow> those acc = None"
  by (induction acc) (auto split: option.splits)

lemma Promise_all_run_fulfilled:
  assumes "length acc = length vs"
    and "\<forall>i < length vs. acc ! i = None \<or> acc ! i = Some (vs ! i)"
  shows "Promise_all_run schedule (map Fulfilled vs) acc =
           (if \<forall>i < length vs. acc ! i \<noteq> None \<or> i \<in> set schedule
            then Some (Fulfilled vs) else None)"
  using assms
proof (induction schedule arbitrary: acc)
  case Nil
  show ?case
  proof (cases "\<forall>i < length vs. acc ! i \<noteq> None")
    case True
    have "acc ! i = map Some vs ! i" if "i < length vs" for i
      using that True Nil.prems(2) by (metis nth_map)
    then have "acc = map Some vs" using Nil.prems(1)
      by (simp add: list_eq_iff_nth_eq)
    then show ?thesis using True by (simp add: those_map_Some)
  next
    case False
    then obtain i where "i < length vs" "acc ! i = None" by blast
    then have "None \<in> set acc" using Nil.prems(1) by (metis nth_mem)
    then show ?thesis using False by (simp add: those_None)
  qed
next
  case (Cons j schedule)
  show ?case
  proof (cases "j < length vs")
    case False
    have "(\<forall>i<length vs. acc ! i \<noteq> None \<or> i \<in> set (j # schedule))
        = (\<forall>i<length vs. acc ! i \<noteq> None \<or> i \<in> set schedule)"
      using False by auto
    then show ?thesis using False Cons.IH [OF Cons.prems] by simp
  next
    case True
    let ?acc = "acc[j := Some (vs ! j)]"
    have l: "length ?acc = length vs" using Cons.prems by simp
    have n: "?acc ! i = (if i = j then Some (vs ! j) else acc ! i)" for i
      using True Cons.prems(1) by (simp add: nth_list_update)
    have a: "\<forall>i < length vs. ?acc ! i = None \<or> ?acc ! i = Some (vs ! i)"
      using Cons.prems(2) by (simp add: n)
    have "(\<forall>i<length vs. ?acc ! i \<noteq> None \<or> i \<in> set schedule)
        = (\<forall>i<length vs. acc ! i \<noteq> None \<or> i \<in> set (j # schedule))"
      by (auto simp: n)
    then show ?thesis using True Cons.IH [OF l a] by simp
  qed
qed

lemma Promise_all_fulfilled:
  "Promise_all schedule (map Fulfilled vs) =
     (if {..<length vs} \<subseteq> set schedule then Some (Fulfilled vs) else None)"
proof -
  have "Promise_all schedule (map Fulfilled vs) =
          (if \<forall>i < length vs. replicate (length vs) None ! i \<noteq> None \<or> i \<in> set schedule
           then Some (Fulfilled vs) else None)"
    unfolding Promise_all_def
    using Promise_all_run_fulfilled [of "replicate (length vs) None" vs schedule] by simp
  moreover have "(\<forall>i < length vs. replicate (length vs) None ! i \<noteq> None \<or> i \<in> set schedule)
      = ({..<length vs} \<subseteq> set schedule)"
    by auto
  ultimately show ?thesis by simp
qed

lemma Promise_all_caught:
  "Promise_all schedule
     [promise_catch p1 (\<lambda>e. EmptyCompletionItems), promise_catch p2 (\<lambda>e. EmptyCompletionItems),
      promise_catch p3 (\<lambda>e. EmptyCompletionItems), promise_catch p4 (\<lambda>e. EmptyCompletionItems)] =
     (if {0, 1, 2, 3} \<subseteq> set schedule
      then Some (Fulfilled
             [case p1 of Fulfilled items \<Rightarrow> items | Rejected e \<Rightarrow> [],
              case p2 of Fulfilled items \<Rightarrow> items | Rejected e \<Rightarrow> [],
              case p3 of Fulfilled items \<Rightarrow> items | Rejected e \<Rightarrow> [],
              case p4 of Fulfilled items \<Rightarrow> items | Rejected e \<Rightarrow> []])
      else None)"
proof -
  let ?vs = "[case p1 of Fulfilled items \<Rightarrow> items | Rejected e \<Rightarrow> [],
              case p2 of Fulfilled items \<Rightarrow> items | Rejected e \<Rightarrow> [],
              case p3 of Fulfilled items \<Rightarrow> items | Rejected e \<Rightarrow> [],
              case p4 of Fulfilled items \<Rightarrow> items | Rejected e \<Rightarrow> []]"
  have s: "{..<length ?vs} = {0, 1, 2, 3}" by auto
  have "Promise_all schedule (map Fulfilled ?vs) =
          (if {0, 1, 2, 3} \<subseteq> set schedule then Some (Fulfilled ?vs) else None)"
    unfolding Promise_all_fulfilled s ..
  then show ?thesis
    by (simp add: promise_catch_eq EmptyCompletionItems_def)
qed

lemma contribution_Returns:
  "getCompletionItems provider context = Returns p \<Longrightarrow>
   contribution provider context = (case p of Fulfilled items \<Rightarrow> items | Rejected e \<Rightarrow> [])"
  by (simp add: contribution_def split: Promise.splits)

lemma getCompletionItems_calls:
  "DocumentAnalysis_getCompletionItems env schedule this =
     (case getCompletionItems (librarySymbolProvider this) (completionContext env this) of
        Throws e \<Rightarrow> Some (Rejected e)
      | Returns p1 \<Rightarrow>
      (case getCompletionItems (keywordProvider this) (completionContext env this) of
        Throws e \<Rightarrow> Some (Rejected e)
      | Returns p2 \<Rightarrow>
      (case getCompletionItems (environmentSymbolProvider this) (completionContext env this) of
        Throws e \<Rightarrow> Some (Rejected e)
      | Returns p3 \<Rightarrow>
      (case getCompletionItems (localSymbolProvider this) (completionContext env this) of
        Throws e \<Rightarrow> Some (Rejected e)
      | Returns p4 \<Rightarrow>
      (case Promise_all schedule
             [promise_catch p1 (\<lambda>e. EmptyCompletionItems),
              promise_catch p2 (\<lambda>e. EmptyCompletionItems),
              promise_catch p3 (\<lambda>e. EmptyCompletionItems),
              promise_catch p4 (\<lambda>e. EmptyCompletionItems)] of
        None \<Rightarrow> None
      | Some (Rejected e) \<Rightarrow> Some (Rejected e)
      | Some (Fulfilled responses) \<Rightarrow>
          Some (Fulfilled (responses ! 1 @ responses ! 0 @ responses ! 2 @ responses ! 3)))))))"
  unfolding DocumentAnalysis_getCompletionItems_def completionContext_def Let_def
  by (rule refl)

lemma getCompletionItems_eq:
  "DocumentAnalysis_getCompletionItems env schedule this =
     (case firstThrown (completionCalls env this) of
        Some e \<Rightarrow> Some (Rejected e)
      | None \<Rightarrow>
          (if {0, 1, 2, 3} \<subseteq> set schedule
           then Some (Fulfilled
                  (contribution (keywordProvider this) (completionContext env this) @
                   contribution (librarySymbolProvider this) (completionContext env this) @
                   contribution (environmentSymbolProvider this) (completionContext env this) @
                   contribution (localSymbolProvider this) (completionContext env this)))
           else None))"
proof -
  let ?c = "completionContext env this"
  show ?thesis
  proof (cases "getCompletionItems (librarySymbolProvider this) ?c")
    case (Throws e)
    then show ?thesis
      by (simp add: getCompletionItems_calls completionCalls_def)
  next
    case l: (Returns p1)
    show ?thesis
    proof (cases "getCompletionItems (keywordProvider this) ?c")
      case (Throws e)
      then show ?thesis using l
        by (simp add: getCompletionItems_calls completionCalls_def)
    next
      case k: (Returns p2)
      show ?thesis
      proof (cases "getCompletionItems (environmentSymbolProvider this) ?c")
        case (Throws e)
        then show ?thesis using l k
          by (simp add: getCompletionItems_calls completionCalls_def)
      next
        case v: (Returns p3)
        show ?thesis
        proof (cases "getCompletionItems (localSymbolProvider this) ?c")
          case (Throws e)
          then show ?thesis using l k v
            by (simp add: getCompletionItems_calls completionCalls_def)
        next
          case o: (Returns p4)
          show ?thesis using l k v o
            by (simp add: getCompletionItems_calls completionCalls_def Promise_all_caught
                contribution_Returns [OF l] contribution_Returns [OF k]
                contribution_Returns [OF v] contribution_Returns [OF o])
        qed
      qed
    qed
  qed
qed

lemma Promise_all_single:
  "Promise_all schedule [Fulfilled v] = (if 0 \<in> set schedule then Some (Fulfilled [v]) else None)"
  using Promise_all_fulfilled [of schedule "[v]"] by (simp add: lessThan_Suc)

lemma getHover_eq:
  "DocumentAnalysis_getHover env schedule this =
     (case maybeIdentifierAt env (document this) (position this) of
        None \<Rightarrow> Some (Fulfilled (Some (EmptyHover env)))
      | Some identifierToken \<Rightarrow>
          (case getHover (librarySymbolProvider this)
                  \<lparr>hover_range = getTokenRangeForPosition identifierToken (position this),
                   hover_identifier = data identifierToken\<rparr> of
             Throws e \<Rightarrow> Some (Rejected e)
           | Returns libraryPromise \<Rightarrow>
               (if 0 \<in> set schedule then
                  Some (Fulfilled (Some
                    (case libraryPromise of
                       Fulfilled (Some libraryResponse) \<Rightarrow> libraryResponse
                     | Fulfilled None \<Rightarrow> EmptyHover env
                     | Rejected e \<Rightarrow> EmptyHover env)))
                else None)))"
  by (simp add: DocumentAnalysis_getHover_def Let_def promise_catch_eq Promise_all_single
      split: option.splits Promise.splits Call.splits)

lemma getSignatureHelp_eq:
  "DocumentAnalysis_getSignatureHelp env schedule this =
     (case WorkspaceCache_maybeTriedInspection env (document this) (position this) of
        None \<Rightarrow> Some (Fulfilled (Some (EmptySignatureHelp env)))
      | Some (Err e) \<Rightarrow> Some (Fulfilled (Some (EmptySignatureHelp env)))
      | Some (Ok inspected) \<Rightarrow>
          (case maybeSignatureProviderContext env inspected of
             None \<Rightarrow> Some (Fulfilled (Some (EmptySignatureHelp env)))
           | Some context \<Rightarrow>
               (case maybeFunctionName context of
                  None \<Rightarrow> Some (Fulfilled (Some (EmptySignatureHelp env)))
                | Some functionName \<Rightarrow>
                    (case getSignatureHelp (librarySymbolProvider this) context of
                       Throws e \<Rightarrow> Some (Rejected e)
                     | Returns libraryPromise \<Rightarrow>
                         (if 0 \<in> set schedule then
                            Some (Fulfilled (Some
                              (case libraryPromise of
                                 Fulfilled (Some libraryResponse) \<Rightarrow> libraryResponse
                               | Fulfilled None \<Rightarrow> EmptySignatureHelp env
                               | Rejected e \<Rightarrow> EmptySignatureHelp env)))
                          else None)))))"
  by (simp add: DocumentAnalysis_getSignatureHelp_def Let_def promise_catch_eq
      Promise_all_single split: option.splits Promise.splits Call.splits result.splits)

lemma maybeTokenAt_no_line:
  "line pos < 0 \<or> int (length (lines (WorkspaceCache_getLexerState env doc))) \<le> line pos \<Longrightarrow>
   maybeTokenAt env doc pos = None"
  by (auto simp: maybeTokenAt_def maybeLineTokensAt_def Let_def)

text \<open>
  What the \<^verbatim>\<open>.catch\<close> wrappers achieve. As long as every provider call returns a promise,
  no request is rejected and none answers \<^verbatim>\<open>null\<close>, a provider whose promise is rejected
  adds no completion item, and a hover or signature answer is the empty response or what
  the library provider answered.
\<close>

lemma completion_with_returning_calls:
  assumes "firstThrown (completionCalls env this) = None"
  shows "(\<forall>e. DocumentAnalysis_getCompletionItems env schedule this \<noteq> Some (Rejected e)) \<and>
         ({0, 1, 2, 3} \<subseteq> set schedule \<longrightarrow>
            DocumentAnalysis_getCompletionItems env schedule this =
              Some (Fulfilled
                (contribution (keywordProvider this) (completionContext env this) @
                 contribution (librarySymbolProvider this) (completionContext env this) @
                 contribution (environmentSymbolProvider this) (completionContext env this) @
                 contribution (localSymbolProvider this) (completionContext env this))))"
  using assms by (simp add: getCompletionItems_eq)

lemma rejected_promise_contributes_nothing:
  "getCompletionItems provider context = Returns (Rejected e) \<Longrightarrow>
   contribution provider context = []"
  by (simp add: contribution_def)

lemma hover_with_returning_call:
  assumes "\<forall>context e. getHover (librarySymbolProvider this) context \<noteq> Throws e"
  shows "(\<forall>e. DocumentAnalysis_getHover env schedule this \<noteq> Some (Rejected e)) \<and>
         DocumentAnalysis_getHover env schedule this \<noteq> Some (Fulfilled None) \<and>
         (0 \<in> set schedule \<longrightarrow>
            (\<exists>response. DocumentAnalysis_getHover env schedule this
                          = Some (Fulfilled (Some response))))"
  using assms by (auto simp: getHover_eq split: option.splits Call.splits)

lemma signatureHelp_with_returning_call:
  assumes "\<forall>context e. getSignatureHelp (librarySymbolProvider this) context \<noteq> Throws e"
  shows "(\<forall>e. DocumentAnalysis_getSignatureHelp env schedule this \<noteq> Some (Rejected e)) \<and>
         DocumentAnalysis_getSignatureHelp env schedule this \<noteq> Some (Fulfilled None) \<and>
         (0 \<in> set schedule \<longrightarrow>
            (\<exists>response. DocumentAnalysis_getSignatureHelp env schedule this
                          = Some (Fulfilled (Some response))))"
  using assms
  by (auto simp: getSignatureHelp_eq split: option.splits Call.splits result.splits)

lemma requests_never_answer_null:
  "DocumentAnalysis_getHover env schedule this \<noteq> Some (Fulfilled None) \<and>
   DocumentAnalysis_getSignatureHelp env schedule this \<noteq> Some (Fulfilled None)"
  by (auto simp: getHover_eq getSignatureHelp_eq split: option.splits Call.splits result.splits)

lemma hover_no_line:
  "line (position this) < 0 \<or>
   int (length (lines (WorkspaceCache_getLexerState env (document this)))) \<le> line (position this) \<Longrightarrow>
   DocumentAnalysis_getHover env schedule this = Some (Fulfilled (Some (EmptyHover env)))"
  using maybeTokenAt_no_line [of "position this" env "document this"]
  by (simp add: getHover_eq maybeIdentifierAt_def)

text \<open>
  A provider call that throws before returning a promise is not reached by \<^verbatim>\<open>.catch\<close>: the
  request is rejected with what was thrown, whatever the other providers do and in whatever
  order promises settle.
\<close>

lemma completion_thrown_call_rejects:
  "firstThrown (completionCalls env this) = Some e \<Longrightarrow>
   DocumentAnalysis_getCompletionItems env schedule this = Some (Rejected e)"
  by (simp add: getCompletionItems_eq)

section \<open>The claims about the analysis\<close>

text \<open>
  C9. \<open>maybeTokenAt\<close> returns what the description of the resolver says: the first token of
  the cursor's line whose span contains the cursor character; else, when the character just
  before the cursor is a dot and an identifier token ends exactly at the dot, that token
  with the dot appended to its text and its end offset moved by one; in every other case
  (no such line, a line without tokens, no match) nothing.
\<close>

theorem maybeTokenAt_meets_description:
  "maybeTokenAt env doc pos = spec_maybeTokenAt (WorkspaceCache_getLexerState env doc) doc pos"
proof (cases "0 \<le> line pos \<and> nat (line pos) < length (lines (WorkspaceCache_getLexerState env doc))")
  case False
  then show ?thesis
    by (auto simp: maybeTokenAt_def maybeLineTokensAt_def spec_maybeTokenAt_def lineTokensOf_def
        Let_def)
next
  case True
  let ?ts = "tokens (lines (WorkspaceCache_getLexerState env doc) ! nat (line pos))"
  have ts: "maybeLineTokensAt env doc pos = Some ?ts"
    "lineTokensOf (WorkspaceCache_getLexerState env doc) (line pos) = ?ts"
    using True by (simp_all add: maybeLineTokensAt_def lineTokensOf_def Let_def)
  show ?thesis
  proof (cases "find (\<lambda>token. spanContains token (character pos)) ?ts")
    case (Some t)
    then show ?thesis using ts
      by (simp add: maybeTokenAt_def spec_maybeTokenAt_def loop1_find)
  next
    case None
    then have "\<forall>t \<in> set ?ts. \<not> spanContains t (character pos)"
      by (simp add: find_None_iff)
    from loop2_find [OF this] show ?thesis using ts None
      by (simp add: maybeTokenAt_def spec_maybeTokenAt_def loop1_find characterBefore_def Let_def)
  qed
qed

text \<open>
  C9 on the document \<^verbatim>\<open>foo.\<close> with the cursor after the dot: no token spans offset 4, the
  character before it is the dot, and the identifier \<^verbatim>\<open>foo\<close> ends at offset 3.
\<close>

theorem maybeTokenAt_meets_description_witness:
  "maybeTokenAt exModules exDocument \<lparr>line = 0, character = 4\<rparr>
     = Some \<lparr>data = ''foo.'', kind = Identifier, positionStart = 0, positionEnd = 4\<rparr> \<and>
   maybeTokenAt exModules exDocument \<lparr>line = 0, character = 2\<rparr>
     = Some \<lparr>data = ''foo'', kind = Identifier, positionStart = 0, positionEnd = 3\<rparr> \<and>
   maybeTokenAt exModules exDocument \<lparr>line = 0, character = 7\<rparr> = None \<and>
   maybeTokenAt exModules exDocument \<lparr>line = 1, character = 0\<rparr> = None"
  using maybeTokenAt_meets_description [of exModules exDocument "\<lparr>line = 0, character = 4\<rparr>"]
    maybeTokenAt_meets_description [of exModules exDocument "\<lparr>line = 0, character = 2\<rparr>"]
    maybeTokenAt_meets_description [of exModules exDocument "\<lparr>line = 0, character = 7\<rparr>"]
    maybeTokenAt_meets_description [of exModules exDocument "\<lparr>line = 1, character = 0\<rparr>"]
  by (simp add: spec_maybeTokenAt_def lineTokensOf_def spanContains_def endsExactlyAt_def
      withTrailingDot_def characterBefore_def example_defs)

text \<open>
  C5. The claim has the completion request survive a provider that throws during its
  \<^verbatim>\<open>getCompletionItems\<close> call. The code attaches \<^verbatim>\<open>.catch\<close> to the promise the call
  returns, which isolates a rejected promise but not a call that throws before returning
  one. Here the environment provider, supplied by the host, throws in that way: the request
  is rejected, and the items of the keyword, library and local providers are lost.
\<close>

theorem thrown_provider_call_rejects_completion:
  "getCompletionItems (environmentSymbolProvider exAnalysisEnvironmentThrows)
     (completionContext exModules exAnalysisEnvironmentThrows) = Throws ''provider threw'' \<and>
   getCompletionItems (keywordProvider exAnalysisEnvironmentThrows)
     (completionContext exModules exAnalysisEnvironmentThrows) = Returns (Fulfilled [''let'', ''in'']) \<and>
   DocumentAnalysis_getCompletionItems exModules [0, 1, 2, 3] exAnalysisEnvironmentThrows
     = Some (Rejected ''provider threw'')"
  by (simp add: getCompletionItems_eq completionCalls_def exAnalysisEnvironmentThrows_def
      exAnalysis_def exKeywordProvider_def exLibraryProvider_def exLocalProvider_def
      exThrowingProvider_def)

text \<open>
  C6. Whenever the completion request answers a list, that list is the keyword provider's
  items, then the library's, then the environment's, then the local document's, item for
  item: nothing is removed and nothing reordered. It does answer once the four provider
  calls have returned their promises and these have settled. The order in which the
  promises settled has no part in it: any two schedules that settle all four give the same
  outcome.
\<close>

theorem completion_is_fixed_order_concatenation:
  "(firstThrown (completionCalls env this) = None \<and> {0, 1, 2, 3} \<subseteq> set schedule \<longrightarrow>
      DocumentAnalysis_getCompletionItems env schedule this =
        Some (Fulfilled
          (contribution (keywordProvider this) (completionContext env this) @
           contribution (librarySymbolProvider this) (completionContext env this) @
           contribution (environmentSymbolProvider this) (completionContext env this) @
           contribution (localSymbolProvider this) (completionContext env this)))) \<and>
   (\<forall>items. DocumentAnalysis_getCompletionItems env schedule this = Some (Fulfilled items) \<longrightarrow>
      items =
        contribution (keywordProvider this) (completionContext env this) @
        contribution (librarySymbolProvider this) (completionContext env this) @
        contribution (environmentSymbolProvider this) (completionContext env this) @
        contribution (localSymbolProvider this) (completionContext env this)) \<and>
   ({0, 1, 2, 3} \<subseteq> set schedule \<and> {0, 1, 2, 3} \<subseteq> set schedule2 \<longrightarrow>
      DocumentAnalysis_getCompletionItems env schedule2 this =
        DocumentAnalysis_getCompletionItems env schedule this) \<and>
   (\<forall>items. getCompletionItems (keywordProvider this) (completionContext env this)
               = Returns (Fulfilled items)
      \<longrightarrow> contribution (keywordProvider this) (completionContext env this) = items) \<and>
   (\<forall>items. getCompletionItems (librarySymbolProvider this) (completionContext env this)
               = Returns (Fulfilled items)
      \<longrightarrow> contribution (librarySymbolProvider this) (completionContext env this) = items) \<and>
   (\<forall>items. getCompletionItems (environmentSymbolProvider this) (completionContext env this)
               = Returns (Fulfilled items)
      \<longrightarrow> contribution (environmentSymbolProvider this) (completionContext env this) = items) \<and>
   (\<forall>items. getCompletionItems (localSymbolProvider this) (completionContext env this)
               = Returns (Fulfilled items)
      \<longrightarrow> contribution (localSymbolProvider this) (completionContext env this) = items)"
  (is "?answers \<and> ?merged \<and> ?same \<and> ?verbatim")
proof -
  let ?all =
    "contribution (keywordProvider this) (completionContext env this) @
     contribution (librarySymbolProvider this) (completionContext env this) @
     contribution (environmentSymbolProvider this) (completionContext env this) @
     contribution (localSymbolProvider this) (completionContext env this)"
  have eq: "DocumentAnalysis_getCompletionItems env sched this =
     (case firstThrown (completionCalls env this) of
        Some e \<Rightarrow> Some (Rejected e)
      | None \<Rightarrow> (if {0, 1, 2, 3} \<subseteq> set sched then Some (Fulfilled ?all) else None))"
    for sched
    by (rule getCompletionItems_eq)
  have 1: ?answers
  proof
    assume "firstThrown (completionCalls env this) = None \<and> {0, 1, 2, 3} \<subseteq> set schedule"
    then show "DocumentAnalysis_getCompletionItems env schedule this = Some (Fulfilled ?all)"
      unfolding eq [of schedule] by simp
  qed
  have 2: ?merged
  proof (intro allI impI)
    fix items
    assume a: "DocumentAnalysis_getCompletionItems env schedule this = Some (Fulfilled items)"
    show "items = ?all"
    proof (cases "firstThrown (completionCalls env this)")
      case None
      then show ?thesis using a unfolding eq [of schedule]
        by (simp split: if_splits)
    next
      case (Some e)
      then show ?thesis using a unfolding eq [of schedule] by simp
    qed
  qed
  have 3: ?same
  proof
    assume "{0, 1, 2, 3} \<subseteq> set schedule \<and> {0, 1, 2, 3} \<subseteq> set schedule2"
    then show "DocumentAnalysis_getCompletionItems env schedule2 this =
        DocumentAnalysis_getCompletionItems env schedule this"
      unfolding eq [of schedule] eq [of schedule2] by simp
  qed
  have 4: ?verbatim
    by (simp add: contribution_def)
  show ?thesis
    by (rule conjI [OF 1 conjI [OF 2 conjI [OF 3 4]]])
qed

text \<open>
  C6 on the example, where the local provider repeats a keyword: both occurrences stay, and
  two different orders of settling give the same list.
\<close>

theorem completion_is_fixed_order_concatenation_witness:
  "firstThrown (completionCalls exModules exAnalysis) = None \<and>
   DocumentAnalysis_getCompletionItems exModules [3, 1, 0, 2] exAnalysis
     = Some (Fulfilled
         [''let'', ''in'', ''Test.Number'', ''Test.NumberOne'', ''Env.Value'', ''foo'', ''let'']) \<and>
   DocumentAnalysis_getCompletionItems exModules [0, 1, 2, 3] exAnalysis
     = DocumentAnalysis_getCompletionItems exModules [3, 1, 0, 2] exAnalysis"
proof -
  note t = completion_is_fixed_order_concatenation
    [of exModules exAnalysis "[3, 1, 0, 2]" "[0, 1, 2, 3]"]
  have n: "firstThrown (completionCalls exModules exAnalysis) = None"
    by (simp add: completionCalls_def exAnalysis_def exKeywordProvider_def exLibraryProvider_def
        exEnvironmentProvider_def exLocalProvider_def)
  have s1: "{0, 1, 2, 3} \<subseteq> set [3, 1, 0, 2 :: nat]" and s2: "{0, 1, 2, 3} \<subseteq> set [0, 1, 2, 3 :: nat]"
    by simp_all
  have c: "contribution (keywordProvider exAnalysis) (completionContext exModules exAnalysis) @
           contribution (librarySymbolProvider exAnalysis) (completionContext exModules exAnalysis) @
           contribution (environmentSymbolProvider exAnalysis) (completionContext exModules exAnalysis) @
           contribution (localSymbolProvider exAnalysis) (completionContext exModules exAnalysis)
           = [''let'', ''in'', ''Test.Number'', ''Test.NumberOne'', ''Env.Value'', ''foo'', ''let'']"
    by (simp add: contribution_def exAnalysis_def exKeywordProvider_def exLibraryProvider_def
        exEnvironmentProvider_def exLocalProvider_def)
  have r: "DocumentAnalysis_getCompletionItems exModules [3, 1, 0, 2] exAnalysis
     = Some (Fulfilled
         [''let'', ''in'', ''Test.Number'', ''Test.NumberOne'', ''Env.Value'', ''foo'', ''let''])"
    using mp [OF conjunct1 [OF t] conjI [OF n s1]] unfolding c .
  have e: "DocumentAnalysis_getCompletionItems exModules [0, 1, 2, 3] exAnalysis
     = DocumentAnalysis_getCompletionItems exModules [3, 1, 0, 2] exAnalysis"
    using mp [OF conjunct1 [OF conjunct2 [OF conjunct2 [OF t]]] conjI [OF s1 s2]] .
  show ?thesis
    by (rule conjI [OF n conjI [OF r e]])
qed

text \<open>
  C7. The claim has no exception leave any of the three requests, whatever the providers
  do. No request ever answers \<^verbatim>\<open>null\<close>, and no rejected promise of a provider reaches the
  caller; but a library provider whose methods throw before returning a promise makes each
  of the three requests reject with what was thrown, because \<^verbatim>\<open>.catch\<close> is attached to the
  promise the call returns and nothing encloses the call itself.
\<close>

theorem thrown_provider_call_rejects_requests:
  "DocumentAnalysis_getHover exModules [0] exAnalysisLibraryThrows
     = Some (Rejected ''provider threw'') \<and>
   DocumentAnalysis_getSignatureHelp exModules [0] exAnalysisLibraryThrows
     = Some (Rejected ''provider threw'') \<and>
   DocumentAnalysis_getCompletionItems exModules [0, 1, 2, 3] exAnalysisLibraryThrows
     = Some (Rejected ''provider threw'')"
  by (simp add: getHover_eq getSignatureHelp_eq getCompletionItems_eq completionCalls_def
      maybeIdentifierAt_def maybeTokenAt_def maybeLineTokensAt_def example_defs)

end
